theory Spec2Isabelle
  imports Complex_Main "HOL-Library.Word" "HOL-Library.Stream"
begin

unbundle bit_operations_syntax

section \<open>JavaScript values used by fair.js\<close>

text \<open>
  Strings are lists of code units; the model covers the code units below 256, one
  \<^typ>\<open>char\<close> each.  A Number is an IEEE double: a finite value (kept as the
  rational it denotes, the two zeros identified), an infinity, or NaN.  The elements of
  a \<open>Uint8Array\<close> are 8-bit words.
\<close>

type_synonym byte = "8 word"

datatype number = Finite rat | PosInf | NegInf | NaN

abbreviation IntNum :: "int \<Rightarrow> number" where
  "IntNum i \<equiv> Finite (of_int i)"

text \<open>The only exception the built-ins called by fair.js can throw.\<close>

datatype error = RangeError

subsection \<open>\<open>parseInt(s, 16)\<close>\<close>

text \<open>
  \<open>parseInt\<close> skips leading white space, reads an optional sign, for radix 16 an
  optional \<open>0x\<close>/\<open>0X\<close>, and then the longest run of hex digits; with no digit
  at that point the result is NaN.  Whatever follows the digits is ignored.
\<close>

definition hexval :: "char \<Rightarrow> nat option" where
  "hexval c = (let n = (of_char c :: nat) in
     if 48 \<le> n \<and> n \<le> 57 then Some (n - 48)
     else if 97 \<le> n \<and> n \<le> 102 then Some (n - 87)
     else if 65 \<le> n \<and> n \<le> 70 then Some (n - 55)
     else None)"

definition is_hex :: "char \<Rightarrow> bool" where
  "is_hex c = (hexval c \<noteq> None)"

definition hexdig :: "char \<Rightarrow> nat" where
  "hexdig c = (case hexval c of Some v \<Rightarrow> v | None \<Rightarrow> 0)"

definition is_space :: "char \<Rightarrow> bool" where
  "is_space c = ((of_char c :: nat) \<in> {9, 10, 11, 12, 13, 32, 160})"

definition strip_sign :: "string \<Rightarrow> int \<times> string" where
  "strip_sign s = (case s of
       [] \<Rightarrow> (1, s)
     | c # cs \<Rightarrow> if c = CHR ''-'' then (- 1, cs)
                else if c = CHR ''+'' then (1, cs) else (1, s))"

definition strip_0x :: "string \<Rightarrow> string" where
  "strip_0x s = (case s of
       a # b # cs \<Rightarrow>
         if a = CHR ''0'' \<and> (b = CHR ''x'' \<or> b = CHR ''X'') then cs else s
     | _ \<Rightarrow> s)"

definition hexnum :: "string \<Rightarrow> nat" where
  "hexnum z = foldl (\<lambda>acc c. 16 * acc + hexdig c) 0 z"

definition parseInt16 :: "string \<Rightarrow> number" where
  "parseInt16 s =
     (let (sign, t) = strip_sign (dropWhile is_space s);
          z = takeWhile is_hex (strip_0x t)
      in if z = [] then NaN else IntNum (sign * int (hexnum z)))"

subsection \<open>Typed arrays\<close>

text \<open>
  Storing a Number into a \<open>Uint8Array\<close> converts it with ToUint8: NaN and the
  infinities become 0, anything else is truncated and reduced modulo 256.  A store past
  the end of a typed array is ignored.
\<close>

definition toUint8 :: "number \<Rightarrow> byte" where
  "toUint8 x = (case x of
       Finite q \<Rightarrow> of_int (if 0 \<le> q then \<lfloor>q\<rfloor> else \<lceil>q\<rceil>)
     | _ \<Rightarrow> 0)"

definition typed_store :: "byte list \<Rightarrow> nat \<Rightarrow> number \<Rightarrow> byte list" where
  "typed_store bytes i v = (if i < length bytes then bytes[i := toUint8 v] else bytes)"

definition substr :: "string \<Rightarrow> nat \<Rightarrow> nat \<Rightarrow> string" where
  "substr s start len = take len (drop start s)"

subsection \<open>Number arithmetic\<close>

text \<open>
  Every arithmetic result is rounded to the nearest double, ties to even
  (\<open>rnd\<close>): 53 significant bits, so that the doubles around \<open>x\<close> are the
  multiples of \<open>ulp x\<close>; exponents from \<open>-1022\<close> (below that the spacing stays
  \<open>2 powi - 1074\<close>) to 1023, and an infinity from \<open>2 ^ 1024\<close> on.
\<close>

fun bit_length :: "nat \<Rightarrow> nat" where
  "bit_length n = (if n = 0 then 0 else Suc (bit_length (n div 2)))"

declare bit_length.simps [simp del]

definition ilog2 :: "rat \<Rightarrow> int" where
  "ilog2 x = (let (p, q) = quotient_of x;
                  d = int (bit_length (nat p)) - int (bit_length (nat q))
              in if 2 powi d \<le> x then d else d - 1)"

definition rhe :: "rat \<Rightarrow> int" where
  "rhe q = (let f = \<lfloor>q\<rfloor>; r = q - of_int f
            in if r < 1 / 2 then f
               else if 1 / 2 < r then f + 1
               else if even f then f else f + 1)"

definition expo :: "rat \<Rightarrow> int" where
  "expo x = max (ilog2 \<bar>x\<bar>) (- 1022)"

definition ulp :: "rat \<Rightarrow> rat" where
  "ulp x = 2 powi (expo x - 52)"

definition rnd :: "rat \<Rightarrow> number" where
  "rnd x = (if x = 0 then Finite 0
     else let y = of_int (rhe (\<bar>x\<bar> / ulp x)) * ulp x
          in if 2 ^ 1024 \<le> y then (if 0 < x then PosInf else NegInf)
             else Finite (sgn x * y))"

definition is_double :: "rat \<Rightarrow> bool" where
  "is_double x = (rnd x = Finite x)"

fun js_add :: "number \<Rightarrow> number \<Rightarrow> number" where
  "js_add NaN _ = NaN"
| "js_add _ NaN = NaN"
| "js_add PosInf NegInf = NaN"
| "js_add NegInf PosInf = NaN"
| "js_add PosInf _ = PosInf"
| "js_add _ PosInf = PosInf"
| "js_add NegInf _ = NegInf"
| "js_add _ NegInf = NegInf"
| "js_add (Finite x) (Finite y) = rnd (x + y)"

fun js_neg :: "number \<Rightarrow> number" where
  "js_neg (Finite x) = Finite (- x)"
| "js_neg PosInf = NegInf"
| "js_neg NegInf = PosInf"
| "js_neg NaN = NaN"

definition js_sub :: "number \<Rightarrow> number \<Rightarrow> number" where
  "js_sub a b = js_add a (js_neg b)"

text \<open>
  Division; the two zeros are identified, so a zero divisor counts as \<open>+0\<close> (the
  only divisor in fair.js is a sum started at \<open>+0\<close>, which is never \<open>-0\<close>).
\<close>

fun js_div :: "number \<Rightarrow> number \<Rightarrow> number" where
  "js_div NaN _ = NaN"
| "js_div _ NaN = NaN"
| "js_div (Finite x) (Finite y) =
     (if y = 0 then (if x = 0 then NaN else if 0 < x then PosInf else NegInf)
      else rnd (x / y))"
| "js_div (Finite x) _ = Finite 0"
| "js_div PosInf (Finite y) = (if 0 \<le> y then PosInf else NegInf)"
| "js_div NegInf (Finite y) = (if 0 \<le> y then NegInf else PosInf)"
| "js_div _ _ = NaN"

text \<open>The remainder operator \<open>%\<close> takes the sign of the dividend and is exact.\<close>

fun js_rem :: "number \<Rightarrow> number \<Rightarrow> number" where
  "js_rem (Finite x) (Finite y) =
     (if y = 0 then NaN
      else Finite (x - y * of_int (if 0 \<le> x / y then \<lfloor>x / y\<rfloor> else \<lceil>x / y\<rceil>)))"
| "js_rem (Finite x) PosInf = Finite x"
| "js_rem (Finite x) NegInf = Finite x"
| "js_rem _ _ = NaN"

fun js_less :: "number \<Rightarrow> number \<Rightarrow> bool" where
  "js_less (Finite x) (Finite y) = (x < y)"
| "js_less (Finite x) PosInf = True"
| "js_less NegInf (Finite y) = True"
| "js_less NegInf PosInf = True"
| "js_less _ _ = False"

fun js_le :: "number \<Rightarrow> number \<Rightarrow> bool" where
  "js_le (Finite x) (Finite y) = (x \<le> y)"
| "js_le (Finite x) PosInf = True"
| "js_le NegInf (Finite y) = True"
| "js_le NegInf PosInf = True"
| "js_le PosInf PosInf = True"
| "js_le NegInf NegInf = True"
| "js_le _ _ = False"

subsection \<open>Numbers and strings\<close>

text \<open>The decimal numeral of a natural number.\<close>

definition digit_char :: "nat \<Rightarrow> char" where
  "digit_char d = char_of (48 + d)"

fun decimal :: "nat \<Rightarrow> string" where
  "decimal n =
     (if n < 10 then [digit_char n] else decimal (n div 10) @ [digit_char (n mod 10)])"

declare decimal.simps [simp del]

text \<open>
  \<open>String(x)\<close> for a Number \<open>x\<close> that is a non-negative integer.  JavaScript prints
  the shortest numeral that still reads back as \<open>x\<close>: the fewest significant digits
  \<open>s\<close>, with an exponent \<open>m\<close>, such that \<open>s * 10 ^ m\<close> rounds to \<open>x\<close>, and among
  those the value nearest to \<open>x\<close> (the even \<open>s\<close> on a tie).  A value of up to 21
  digits is printed as its plain numeral, a longer one in exponent notation.
\<close>

definition candidate :: "nat \<Rightarrow> nat \<Rightarrow> nat option" where
  "candidate x m =
     (let lo = x div 10 ^ m * 10 ^ m;
          hi = lo + 10 ^ m;
          ok_lo = (rnd (of_nat lo) = Finite (of_nat x));
          ok_hi = (rnd (of_nat hi) = Finite (of_nat x))
      in if ok_lo \<and> ok_hi
         then (if x - lo < hi - x then Some lo
               else if hi - x < x - lo then Some hi
               else if even (x div 10 ^ m) then Some lo else Some hi)
         else if ok_lo then Some lo
         else if ok_hi then Some hi
         else None)"

fun shortest_from :: "nat \<Rightarrow> nat list \<Rightarrow> nat" where
  "shortest_from x [] = x"
| "shortest_from x (m # ms) =
     (case candidate x m of Some v \<Rightarrow> v | None \<Rightarrow> shortest_from x ms)"

definition shortest :: "nat \<Rightarrow> nat" where
  "shortest x = shortest_from x (rev [0..<length (decimal x)])"

definition strip_zeros :: "string \<Rightarrow> string" where
  "strip_zeros ds = rev (dropWhile (\<lambda>c. c = CHR ''0'') (rev ds))"

definition numberToString :: "nat \<Rightarrow> string" where
  "numberToString x =
     (let ds = decimal (shortest x)
      in if length ds \<le> 21 then ds
         else (case strip_zeros ds of
                 [] \<Rightarrow> []
               | c # cs \<Rightarrow> (if cs = [] then [c] else c # CHR ''.'' # cs))
              @ ''e+'' @ decimal (length ds - 1))"

definition is_digit :: "char \<Rightarrow> bool" where
  "is_digit c = (48 \<le> (of_char c :: nat) \<and> (of_char c :: nat) \<le> 57)"

definition decnum :: "string \<Rightarrow> nat" where
  "decnum z = foldl (\<lambda>acc c. 10 * acc + ((of_char c :: nat) - 48)) 0 z"

text \<open>
  \<open>parseFloat\<close>: leading white space, an optional sign, then \<open>Infinity\<close> or digits
  with an optional fraction; the longest such prefix is read and rounded to the nearest
  double, and NaN results when there is none.  (An exponent part is not read by this
  model; no string built by fair.js has one.)
\<close>

definition parseFloat :: "string \<Rightarrow> number" where
  "parseFloat s =
     (let (sign, t) = strip_sign (dropWhile is_space s);
          ip = takeWhile is_digit t;
          r = dropWhile is_digit t;
          fp = (case r of [] \<Rightarrow> [] | c # cs \<Rightarrow> if c = CHR ''.'' then takeWhile is_digit cs else [])
      in if take 8 t = ''Infinity'' then (if sign < 0 then NegInf else PosInf)
         else if ip = [] \<and> fp = [] then NaN
         else rnd (of_int sign * of_nat (decnum (ip @ fp)) / 10 ^ length fp))"

text \<open>
  \<open>x.toFixed(f)\<close>: a RangeError unless \<open>0 \<le> f \<le> 100\<close>; otherwise the integer
  \<open>n\<close> with \<open>n / 10\<^sup>f\<close> nearest to \<open>x\<close> (the larger one on a tie), written with
  \<open>f\<close> digits after the point.  (From \<open>10\<^sup>2\<^sup>1\<close> on the result is \<open>String(x)\<close>,
  which this model does not cover; fair.js applies \<open>toFixed\<close> to values up to 1.)
\<close>

definition toFixed :: "number \<Rightarrow> int \<Rightarrow> error + string" where
  "toFixed x f =
     (if f < 0 \<or> 100 < f then Inl RangeError
      else Inr (case x of
          NaN \<Rightarrow> ''NaN''
        | PosInf \<Rightarrow> ''Infinity''
        | NegInf \<Rightarrow> ''-Infinity''
        | Finite q \<Rightarrow>
            (let n = nat \<lfloor>\<bar>q\<bar> * 10 ^ nat f + 1 / 2\<rfloor>;
                 m = decimal n;
                 m' = replicate (nat f + 1 - length m) (CHR ''0'') @ m;
                 k = length m' - nat f
             in (if q < 0 then ''-'' else '''') @
                (if f = 0 then m' else take k m' @ ''.'' @ drop k m'))))"

subsection \<open>\<open>sha512\<close>\<close>

text \<open>
  \<open>crypto.createHash('sha512').update(string).digest('hex')\<close>: SHA-512 (FIPS 180-4)
  of the UTF-8 encoding of the string, as 128 lower-case hex digits.
\<close>

type_synonym w64 = "64 word"

definition rotr :: "nat \<Rightarrow> w64 \<Rightarrow> w64" where
  "rotr n x = drop_bit n x OR push_bit (64 - n) x"

text \<open>
  The round constants (the first 64 bits of the fractional parts of the cube roots of the
  first 80 primes) and the initial hash value (likewise from the square roots of the
  first 8 primes).
\<close>

definition K512 :: "w64 list" where
  "K512 = [
     4794697086780616226, 8158064640168781261, 13096744586834688815, 16840607885511220156,
     4131703408338449720, 6480981068601479193, 10538285296894168987, 12329834152419229976,
     15566598209576043074, 1334009975649890238, 2608012711638119052, 6128411473006802146,
     8268148722764581231, 9286055187155687089, 11230858885718282805, 13951009754708518548,
     16472876342353939154, 17275323862435702243, 1135362057144423861, 2597628984639134821,
     3308224258029322869, 5365058923640841347, 6679025012923562964, 8573033837759648693,
     10970295158949994411, 12119686244451234320, 12683024718118986047, 13788192230050041572,
     14330467153632333762, 15395433587784984357, 489312712824947311, 1452737877330783856,
     2861767655752347644, 3322285676063803686, 5560940570517711597, 5996557281743188959,
     7280758554555802590, 8532644243296465576, 9350256976987008742, 10552545826968843579,
     11727347734174303076, 12113106623233404929, 14000437183269869457, 14369950271660146224,
     15101387698204529176, 15463397548674623760, 17586052441742319658, 1182934255886127544,
     1847814050463011016, 2177327727835720531, 2830643537854262169, 3796741975233480872,
     4115178125766777443, 5681478168544905931, 6601373596472566643, 7507060721942968483,
     8399075790359081724, 8693463985226723168, 9568029438360202098, 10144078919501101548,
     10430055236837252648, 11840083180663258601, 13761210420658862357, 14299343276471374635,
     14566680578165727644, 15097957966210449927, 16922976911328602910, 17689382322260857208,
     500013540394364858, 748580250866718886, 1242879168328830382, 1977374033974150939,
     2944078676154940804, 3659926193048069267, 4368137639120453308, 4836135668995329356,
     5532061633213252278, 6448918945643986474, 6902733635092675308, 7801388544844847127]"

definition H512 :: "w64 list" where
  "H512 = [
     7640891576956012808, 13503953896175478587, 4354685564936845355, 11912009170470909681,
     5840696475078001361, 11170449401992604703, 2270897969802886507, 6620516959819538809]"

definition ssig0 :: "w64 \<Rightarrow> w64" where
  "ssig0 x = rotr 1 x XOR rotr 8 x XOR drop_bit 7 x"

definition ssig1 :: "w64 \<Rightarrow> w64" where
  "ssig1 x = rotr 19 x XOR rotr 61 x XOR drop_bit 6 x"

definition bsig0 :: "w64 \<Rightarrow> w64" where
  "bsig0 x = rotr 28 x XOR rotr 34 x XOR rotr 39 x"

definition bsig1 :: "w64 \<Rightarrow> w64" where
  "bsig1 x = rotr 14 x XOR rotr 18 x XOR rotr 41 x"

definition ch :: "w64 \<Rightarrow> w64 \<Rightarrow> w64 \<Rightarrow> w64" where
  "ch e f g = (e AND f) XOR (NOT e AND g)"

definition maj :: "w64 \<Rightarrow> w64 \<Rightarrow> w64 \<Rightarrow> w64" where
  "maj a b c = (a AND b) XOR (a AND c) XOR (b AND c)"

text \<open>The message schedule, newest word first: from 16 words to 80.\<close>

fun expand :: "nat \<Rightarrow> w64 list \<Rightarrow> w64 list" where
  "expand 0 ws = ws"
| "expand (Suc n) ws =
     expand n ((ssig1 (ws ! 1) + ws ! 6 + ssig0 (ws ! 14) + ws ! 15) # ws)"

definition step :: "w64 list \<Rightarrow> w64 \<times> w64 \<Rightarrow> w64 list" where
  "step st kw = (case st of
       [a, b, c, d, e, f, g, h] \<Rightarrow>
         (let t1 = h + bsig1 e + ch e f g + fst kw + snd kw;
              t2 = bsig0 a + maj a b c
          in [t1 + t2, a, b, c, d + t1, e, f, g])
     | _ \<Rightarrow> st)"

definition compress :: "w64 list \<Rightarrow> w64 list \<Rightarrow> w64 list" where
  "compress hs blk =
     map2 (+) hs (foldl step hs (zip K512 (rev (expand 64 (rev blk)))))"

definition be64 :: "byte list \<Rightarrow> w64" where
  "be64 bs = foldl (\<lambda>acc b. push_bit 8 acc OR ucast b) 0 bs"

fun chunks :: "nat \<Rightarrow> 'a list \<Rightarrow> 'a list list" where
  "chunks n [] = []"
| "chunks n xs = (if n = 0 then [xs] else take n xs # chunks n (drop n xs))"

definition pad :: "byte list \<Rightarrow> byte list" where
  "pad m = (let l = length m; z = (239 - l mod 128) mod 128
     in m @ [0x80] @ replicate z 0 @
        map (\<lambda>i. of_nat (8 * l div 2 ^ (8 * (15 - i)))) [0..<16])"

definition hexdigit :: "nat \<Rightarrow> char" where
  "hexdigit n = ''0123456789abcdef'' ! n"

definition hex64 :: "w64 \<Rightarrow> string" where
  "hex64 w = map (\<lambda>i. hexdigit (unat (drop_bit (4 * (15 - i)) w AND 15))) [0..<16]"

definition utf8 :: "string \<Rightarrow> byte list" where
  "utf8 s = concat (map (\<lambda>c. let n = (of_char c :: nat) in
       if n < 128 then [of_nat n] else [of_nat (192 + n div 64), of_nat (128 + n mod 64)]) s)"

definition sha512 :: "string \<Rightarrow> string" where
  "sha512 s = concat (map hex64
     (foldl compress H512 (map (map be64 \<circ> chunks 8) (chunks 128 (pad (utf8 s))))))"

section \<open>fair.js\<close>

subsection \<open>\<open>hexToBytes\<close>\<close>

text \<open>
  \<open>byteCount\<close> is \<open>hex.length / 2\<close>, a half-integer for a string of odd length:
  the array then has \<open>\<lfloor>byteCount\<rfloor>\<close> elements while the loop, which runs as long as
  \<open>i < byteCount\<close> (that is, \<open>2 * i < hex.length\<close>), makes one more round whose
  store falls outside the array.
\<close>

function hexToBytes_loop :: "string \<Rightarrow> nat \<Rightarrow> byte list \<Rightarrow> byte list" where
  "hexToBytes_loop hex i bytes =
     (if 2 * i < length hex
      then hexToBytes_loop hex (i + 1)
             (typed_store bytes i (parseInt16 (substr hex (i * 2) 2)))
      else bytes)"
  by pat_completeness auto
termination
  by (relation "measure (\<lambda>(hex, i, bytes). length hex - 2 * i)") auto

declare hexToBytes_loop.simps [simp del]

definition hexToBytes :: "string \<Rightarrow> byte list" where
  "hexToBytes hex = hexToBytes_loop hex 0 (replicate (length hex div 2) 0)"

subsection \<open>\<open>combine\<close>, \<open>byteGenerator\<close>\<close>

text \<open>\<open>client + server + nonce\<close>: string concatenation, the nonce converted by \<open>String\<close>.\<close>

definition combine :: "string \<Rightarrow> string \<Rightarrow> nat \<Rightarrow> string" where
  "combine client server nonce = client @ server @ numberToString nonce"

definition byteGenerator :: "string \<Rightarrow> string \<Rightarrow> nat \<Rightarrow> byte list" where
  "byteGenerator clientseed serverseed nonce =
     (let preHash = combine clientseed serverseed nonce;
          hash = sha512 preHash
      in hexToBytes (take 64 hash))"

subsection \<open>\<open>generateInteger\<close>\<close>

definition generateInteger :: "string \<Rightarrow> string \<Rightarrow> nat \<Rightarrow> number \<Rightarrow> number \<Rightarrow> number" where
  "generateInteger clientSeed serverSeed nonce min' max' =
     (let preHash = combine clientSeed serverSeed nonce;
          hash = sha512 preHash;
          range = js_add (js_sub max' min') (Finite 1)
      in js_add (js_rem (parseInt16 (take 8 hash)) range) min')"

subsection \<open>\<open>generateFloats\<close>, \<open>generateBool\<close>\<close>

text \<open>\<open>bytes.join("")\<close>: the decimal numerals of the bytes, one after the other.\<close>

definition join_bytes :: "byte list \<Rightarrow> string" where
  "join_bytes bytes = concat (map (\<lambda>b. numberToString (unat b)) bytes)"

definition generateFloats :: "string \<Rightarrow> string \<Rightarrow> nat \<Rightarrow> int \<Rightarrow> error + number" where
  "generateFloats clientSeed serverSeed nonce precision =
     (let bytes = byteGenerator clientSeed serverSeed nonce;
          float = parseFloat (''0.'' @ join_bytes bytes)
      in case toFixed float precision of
           Inl e \<Rightarrow> Inl e
         | Inr fixed \<Rightarrow> Inr (parseFloat fixed))"

text \<open>
  The body is a comma expression: the first \<open>generateFloats\<close> call is evaluated and
  dropped, the value is that of the conditional on the second call.
\<close>

definition generateBool :: "string \<Rightarrow> string \<Rightarrow> nat \<Rightarrow> error + bool" where
  "generateBool clientSeed serverSeed nonce =
     (case generateFloats clientSeed serverSeed nonce 10 of
        Inl e \<Rightarrow> Inl e
      | Inr _ \<Rightarrow>
         (case generateFloats clientSeed serverSeed nonce 10 of
            Inl e \<Rightarrow> Inl e
          | Inr f \<Rightarrow> Inr (if js_le f (Finite (1 / 2)) then True else False)))"

subsection \<open>\<open>selectRandomObject\<close>\<close>

record weighted =
  ident :: string
  probability :: number

function select_loop ::
  "number \<Rightarrow> number list \<Rightarrow> 'a list \<Rightarrow> nat \<Rightarrow> number \<Rightarrow> 'a option" where
  "select_loop randomFloat normalizedProbabilities objects i index =
     (if i < length normalizedProbabilities
      then (let index' = js_add index (normalizedProbabilities ! i)
            in if js_less randomFloat index' then Some (objects ! i)
               else select_loop randomFloat normalizedProbabilities objects (i + 1) index')
      else None)"
  by pat_completeness auto
termination
  by (relation "measure (\<lambda>(r, nps, objs, i, index). length nps - i)") auto

declare select_loop.simps [simp del]

text \<open>The result \<open>None\<close> stands for \<open>null\<close>.\<close>

definition selectRandomObject ::
  "string \<Rightarrow> string \<Rightarrow> nat \<Rightarrow> weighted list \<Rightarrow> error + weighted option" where
  "selectRandomObject clientSeed serverSeed nonce objects =
     (let totalProbability = foldl (\<lambda>total obj. js_add total (probability obj)) (Finite 0) objects;
          normalizedProbabilities = map (\<lambda>obj. js_div (probability obj) totalProbability) objects
      in case generateFloats clientSeed serverSeed nonce 10 of
           Inl e \<Rightarrow> Inl e
         | Inr randomFloat \<Rightarrow>
             Inr (select_loop randomFloat normalizedProbabilities objects 0 (Finite 0)))"

subsection \<open>\<open>generateServerSeed\<close> and the module as a whole\<close>

text \<open>
  The one thing outside its arguments that the module can read is the entropy behind
  \<open>crypto.randomBytes\<close>: a stream of bytes, consumed by \<open>generateServerSeed\<close>.
\<close>

record world =
  entropy :: "byte stream"

definition randomBytes :: "nat \<Rightarrow> world \<Rightarrow> byte list \<times> world" where
  "randomBytes n w = (stake n (entropy w), w\<lparr>entropy := sdrop n (entropy w)\<rparr>)"

definition toHex :: "byte list \<Rightarrow> string" where
  "toHex bs = concat (map (\<lambda>b. [hexdigit (unat b div 16), hexdigit (unat b mod 16)]) bs)"

definition generateServerSeed :: "world \<Rightarrow> string \<times> world" where
  "generateServerSeed w = (let (bs, w') = randomBytes 256 w in (toHex bs, w'))"









subsection \<open>The weighted walk as the specification words it\<close>

text \<open>
  The specification's selection rule: accumulate the normalized weights in input order
  and take the first position whose running sum strictly exceeds the draw, if any.
\<close>

definition cumulative :: "number list \<Rightarrow> nat \<Rightarrow> number" where
  "cumulative ps i = foldl js_add (Finite 0) (take (Suc i) ps)"

definition first_exceeding :: "number \<Rightarrow> number list \<Rightarrow> nat option" where
  "first_exceeding draw ps = find (\<lambda>i. js_less draw (cumulative ps i)) [0..<length ps]"

subsection \<open>The byte extractor as the specification words it\<close>

text \<open>
  The specification's \<open>bytesFromHex(hex, byteCount)\<close>: byte \<open>i\<close> is the value of the
  two characters at offset \<open>2i\<close>; a group that is not two base-16 digits is an
  \<open>InvalidHexError\<close>, a string shorter than \<open>2 * byteCount\<close> an
  \<open>InsufficientLengthError\<close>.
\<close>

datatype spec_error =
  InvalidHexError | InsufficientLengthError | InvalidRangeError
  | EmptyOptionsError | InvalidWeightError

definition valid_group :: "string \<Rightarrow> bool" where
  "valid_group g = (length g = 2 \<and> list_all is_hex g)"

definition spec_bytesFromHex :: "string \<Rightarrow> nat \<Rightarrow> spec_error + byte list" where
  "spec_bytesFromHex hex byteCount =
     (if length hex < 2 * byteCount then Inl InsufficientLengthError
      else if list_ex (\<lambda>i. \<not> valid_group (substr hex (2 * i) 2)) [0..<byteCount]
      then Inl InvalidHexError
      else Inr (map (\<lambda>i. of_nat (hexnum (substr hex (2 * i) 2))) [0..<byteCount]))"

section \<open>Properties of \<open>hexToBytes\<close>\<close>

lemma length_typed_store [simp]: "length (typed_store bytes i v) = length bytes"
  by (simp add: typed_store_def)

lemma length_hexToBytes_loop [simp]:
  "length (hexToBytes_loop hex i bytes) = length bytes"
proof (induction hex i bytes rule: hexToBytes_loop.induct)
  case (1 hex i bytes)
  then show ?case
    by (subst hexToBytes_loop.simps) simp
qed

lemma hexToBytes_loop_nth_below:
  "j < i \<Longrightarrow> hexToBytes_loop hex i bytes ! j = bytes ! j"
proof (induction hex i bytes rule: hexToBytes_loop.induct)
  case (1 hex i bytes)
  show ?case
  proof (cases "2 * i < length hex")
    case True
    with 1 have "hexToBytes_loop hex (i + 1)
        (typed_store bytes i (parseInt16 (substr hex (i * 2) 2))) ! j
      = typed_store bytes i (parseInt16 (substr hex (i * 2) 2)) ! j"
      by simp
    also have "\<dots> = bytes ! j"
      using "1.prems" by (simp add: typed_store_def)
    finally show ?thesis
      using True by (subst hexToBytes_loop.simps) simp
  next
    case False
    then show ?thesis
      by (subst hexToBytes_loop.simps) simp
  qed
qed

lemma hexToBytes_loop_nth:
  "i \<le> j \<Longrightarrow> j < length bytes \<Longrightarrow> 2 * j < length hex \<Longrightarrow>
   hexToBytes_loop hex i bytes ! j = toUint8 (parseInt16 (substr hex (2 * j) 2))"
proof (induction hex i bytes rule: hexToBytes_loop.induct)
  case (1 hex i bytes)
  from "1.prems" have run: "2 * i < length hex"
    by simp
  let ?bytes' = "typed_store bytes i (parseInt16 (substr hex (i * 2) 2))"
  have unfold: "hexToBytes_loop hex i bytes = hexToBytes_loop hex (i + 1) ?bytes'"
    using run by (subst hexToBytes_loop.simps) simp
  show ?case
  proof (cases "i = j")
    case True
    have "hexToBytes_loop hex (i + 1) ?bytes' ! j = ?bytes' ! j"
      using True by (intro hexToBytes_loop_nth_below) simp
    also have "\<dots> = toUint8 (parseInt16 (substr hex (2 * j) 2))"
      using True "1.prems" by (simp add: typed_store_def mult.commute)
    finally show ?thesis
      using unfold by simp
  next
    case False
    with "1.prems" have "i + 1 \<le> j"
      by simp
    with "1.IH" [OF run] "1.prems" show ?thesis
      using unfold by simp
  qed
qed

lemma length_hexToBytes: "length (hexToBytes hex) = length hex div 2"
  by (simp add: hexToBytes_def)

lemma hexToBytes_nth:
  assumes "i < length hex div 2"
  shows "hexToBytes hex ! i = toUint8 (parseInt16 (substr hex (2 * i) 2))"
proof -
  from assms have "2 * i < length hex"
    by simp
  with assms show ?thesis
    unfolding hexToBytes_def by (intro hexToBytes_loop_nth) simp_all
qed

lemma hexToBytes_eq_map:
  "hexToBytes hex =
     map (\<lambda>i. toUint8 (parseInt16 (substr hex (2 * i) 2))) [0..<length hex div 2]"
  by (rule nth_equalityI) (simp_all add: length_hexToBytes hexToBytes_nth)

lemma is_hex_cases:
  "is_hex c \<Longrightarrow>
   \<not> is_space c \<and> c \<noteq> CHR ''-'' \<and> c \<noteq> CHR ''+'' \<and> c \<noteq> CHR ''x'' \<and> c \<noteq> CHR ''X''"
  by (auto simp: is_hex_def hexval_def is_space_def Let_def split: if_splits)

lemma hexdig_less: "hexdig c < 16"
  by (auto simp: hexdig_def hexval_def Let_def)

lemma toUint8_NaN [simp]: "toUint8 NaN = 0"
  by (simp add: toUint8_def)

lemma toUint8_IntNum: "toUint8 (IntNum k) = of_int k"
  by (simp add: toUint8_def)

lemma toUint8_numeral [simp]:
  "toUint8 (Finite 0) = 0" "toUint8 (Finite 1) = 1" "toUint8 (Finite (- 1)) = - 1"
  "toUint8 (Finite (numeral w)) = numeral w" "toUint8 (Finite (- numeral w)) = - numeral w"
  using toUint8_IntNum [of 0] toUint8_IntNum [of 1] toUint8_IntNum [of "- 1"]
    toUint8_IntNum [of "numeral w"] toUint8_IntNum [of "- numeral w"]
  by simp_all

lemma parseInt16_hex_hex:
  "is_hex a \<Longrightarrow> is_hex b \<Longrightarrow> parseInt16 [a, b] = IntNum (int (hexnum [a, b]))"
  using is_hex_cases [of a] is_hex_cases [of b]
  by (simp add: parseInt16_def strip_sign_def strip_0x_def)

lemma hexnum_pair: "hexnum [a, b] = 16 * hexdig a + hexdig b"
  by (simp add: hexnum_def)

lemma byte_hex_hex:
  assumes "is_hex a" "is_hex b"
  shows "toUint8 (parseInt16 [a, b]) = of_nat (hexnum [a, b])"
proof -
  have "toUint8 (parseInt16 [a, b]) = of_int (int (hexnum [a, b]))"
    by (simp only: parseInt16_hex_hex [OF assms] toUint8_IntNum)
  then show ?thesis
    by simp
qed

lemma parseInt16_hex_other:
  "is_hex a \<Longrightarrow> \<not> is_hex b \<Longrightarrow> toUint8 (parseInt16 [a, b]) = of_nat (hexdig a)"
  using is_hex_cases [of a]
  by (auto simp: parseInt16_def strip_sign_def strip_0x_def hexnum_def toUint8_def
      hexdig_def hexval_def Let_def)

lemma parseInt16_skip_hex:
  "is_space a \<or> a = CHR ''+'' \<Longrightarrow> is_hex b \<Longrightarrow>
   toUint8 (parseInt16 [a, b]) = of_nat (hexdig b)"
  using is_hex_cases [of b] toUint8_IntNum [of "int (hexdig b)"]
  by (auto simp: parseInt16_def strip_sign_def strip_0x_def hexnum_def is_space_def)

lemma parseInt16_minus_hex:
  "is_hex b \<Longrightarrow> toUint8 (parseInt16 [CHR ''-'', b]) = - of_nat (hexdig b)"
  using is_hex_cases [of b] toUint8_IntNum [of "- int (hexdig b)"]
  by (auto simp: parseInt16_def strip_sign_def strip_0x_def hexnum_def is_space_def)

lemma parseInt16_no_digit:
  "\<not> is_hex a \<Longrightarrow> \<not> ((is_space a \<or> a = CHR ''+'' \<or> a = CHR ''-'') \<and> is_hex b) \<Longrightarrow>
   parseInt16 [a, b] = NaN"
  by (auto simp: parseInt16_def strip_sign_def strip_0x_def hexnum_def is_hex_def hexval_def Let_def
      split: if_splits list.splits)

lemma substr_pair:
  "2 * i + 1 < length hex \<Longrightarrow> substr hex (2 * i) 2 = [hex ! (2 * i), hex ! (2 * i + 1)]"
  by (simp add: substr_def list_eq_iff_nth_eq nth_Cons' less_Suc_eq numeral_2_eq_2)

lemmas ev = hexToBytes_eq_map substr_def parseInt16_def strip_sign_def
      strip_0x_def is_space_def is_hex_def hexval_def hexnum_def hexdig_def valid_group_def
      spec_bytesFromHex_def

subsection \<open>Claim C5: invalid or short input is not reported\<close>

text \<open>
  C5 (as the code has it).  \<open>hexToBytes\<close> takes no byte count and has no failing
  branch: for every string it returns \<open>\<lfloor>length / 2\<rfloor>\<close> bytes; where a group is
  two base-16 digits the byte is the group's value, and a group from which
  \<open>parseInt\<close> reads no digit silently becomes the byte 0.
\<close>

theorem hexToBytes_never_fails:
  "length (hexToBytes hex) = length hex div 2 \<and>
   (\<forall>i < length hex div 2.
      (valid_group (substr hex (2 * i) 2) \<longrightarrow>
         hexToBytes hex ! i = of_nat (hexnum (substr hex (2 * i) 2))) \<and>
      (parseInt16 (substr hex (2 * i) 2) = NaN \<longrightarrow> hexToBytes hex ! i = 0))"
proof (intro conjI allI impI)
  show "length (hexToBytes hex) = length hex div 2"
    by (rule length_hexToBytes)
next
  fix i
  assume i: "i < length hex div 2" and ok: "valid_group (substr hex (2 * i) 2)"
  from i have "2 * i + 1 < length hex"
    by simp
  then have pair: "substr hex (2 * i) 2 = [hex ! (2 * i), hex ! (2 * i + 1)]"
    by (rule substr_pair)
  with ok have "is_hex (hex ! (2 * i))" "is_hex (hex ! (2 * i + 1))"
    by (simp_all add: valid_group_def)
  then have "toUint8 (parseInt16 (substr hex (2 * i) 2)) = of_nat (hexnum (substr hex (2 * i) 2))"
    unfolding pair by (rule byte_hex_hex)
  with i show "hexToBytes hex ! i = of_nat (hexnum (substr hex (2 * i) 2))"
    by (simp add: hexToBytes_nth)
next
  fix i
  assume "i < length hex div 2" and "parseInt16 (substr hex (2 * i) 2) = NaN"
  then show "hexToBytes hex ! i = 0"
    by (simp add: hexToBytes_nth)
qed

theorem hexToBytes_never_fails_witness:
  "length (hexToBytes ''zz1f'') = 2 \<and> hexToBytes ''zz1f'' ! 1 = 31 \<and> hexToBytes ''zz1f'' ! 0 = 0"
proof -
  note t = hexToBytes_never_fails [of "''zz1f''"]
  have "valid_group (substr ''zz1f'' (2 * 1) 2)" "hexnum (substr ''zz1f'' (2 * 1) 2) = 31"
    and "parseInt16 (substr ''zz1f'' (2 * 0) 2) = NaN"
    by (simp_all add: ev)
  with t [THEN conjunct2, rule_format, of 1] t [THEN conjunct2, rule_format, of 0]
    t [THEN conjunct1]
  show ?thesis
    by simp
qed

text \<open>The specified errors do not occur, and a trailing odd character is dropped.\<close>

theorem hexToBytes_invalid_group_counterexample:
  "spec_bytesFromHex ''zz'' 1 = Inl InvalidHexError \<and> hexToBytes ''zz'' = [0] \<and>
   spec_bytesFromHex ''abc'' 2 = Inl InsufficientLengthError \<and> hexToBytes ''abc'' = [171]"
  by (simp add: ev)

subsection \<open>Claim C10: what each two-character group becomes\<close>

text \<open>
  C10 (as the code has it).  For a string of even length \<open>hexToBytes\<close> returns
  \<open>length / 2\<close> bytes, and byte \<open>i\<close>, read from the characters \<open>a\<close>, \<open>b\<close>
  at offsets \<open>2i\<close> and \<open>2i + 1\<close>, is the base-16 value of \<open>ab\<close> when both are
  hex digits; the value of \<open>a\<close> alone when only \<open>a\<close> is a hex digit; the value
  of \<open>b\<close> when \<open>a\<close> is white space or \<open>+\<close>; its negation modulo 256 when
  \<open>a\<close> is \<open>-\<close>; and 0 in every other case.
\<close>

theorem hexToBytes_groups:
  assumes "even (length hex)" and "i < length hex div 2"
    and "a = hex ! (2 * i)" and "b = hex ! (2 * i + 1)"
  shows "length (hexToBytes hex) = length hex div 2 \<and>
     hexToBytes hex ! i =
       (if is_hex a \<and> is_hex b then of_nat (16 * hexdig a + hexdig b)
        else if is_hex a then of_nat (hexdig a)
        else if (is_space a \<or> a = CHR ''+'') \<and> is_hex b then of_nat (hexdig b)
        else if a = CHR ''-'' \<and> is_hex b then - of_nat (hexdig b)
        else 0)"
proof -
  from assms(2) have "2 * i + 1 < length hex"
    by simp
  then have "substr hex (2 * i) 2 = [a, b]"
    unfolding assms(3,4) by (rule substr_pair)
  with assms(2) have byte: "hexToBytes hex ! i = toUint8 (parseInt16 [a, b])"
    by (simp add: hexToBytes_nth)
  consider (both) "is_hex a" "is_hex b"
    | (first) "is_hex a" "\<not> is_hex b"
    | (skip) "\<not> is_hex a" "is_space a \<or> a = CHR ''+''" "is_hex b"
    | (minus) "\<not> is_hex a" "a = CHR ''-''" "is_hex b"
    | (none) "\<not> is_hex a" "\<not> ((is_space a \<or> a = CHR ''+'' \<or> a = CHR ''-'') \<and> is_hex b)"
    by blast
  then have "toUint8 (parseInt16 [a, b]) =
       (if is_hex a \<and> is_hex b then of_nat (16 * hexdig a + hexdig b)
        else if is_hex a then of_nat (hexdig a)
        else if (is_space a \<or> a = CHR ''+'') \<and> is_hex b then of_nat (hexdig b)
        else if a = CHR ''-'' \<and> is_hex b then - of_nat (hexdig b)
        else 0)"
  proof cases
    case both
    then show ?thesis
      by (simp add: byte_hex_hex hexnum_pair)
  next
    case first
    then show ?thesis
      by (simp add: parseInt16_hex_other)
  next
    case skip
    then show ?thesis
      by (simp add: parseInt16_skip_hex)
  next
    case minus
    then show ?thesis
      by (simp add: parseInt16_minus_hex is_space_def)
  next
    case none
    then show ?thesis
      by (auto simp: parseInt16_no_digit)
  qed
  with byte show ?thesis
    by (simp add: length_hexToBytes)
qed

theorem hexToBytes_groups_witness:
  "even (length ''1g'') \<and> (0::nat) < length ''1g'' div 2 \<and>
   length (hexToBytes ''1g'') = 1 \<and> hexToBytes ''1g'' ! 0 = 1"
  using hexToBytes_groups [of "''1g''" 0, OF _ _ refl refl]
  by (simp add: is_hex_def hexval_def hexdig_def)

text \<open>A group that is not valid base-16 need not become 0.\<close>

theorem hexToBytes_partial_group_counterexample:
  "even (length ''1g'') \<and> \<not> valid_group ''1g'' \<and> hexToBytes ''1g'' = [1] \<and>
   hexToBytes ''-1'' = [255]"
  by (simp add: ev)

section \<open>Decimal numerals\<close>

lemma of_char_digit_char: "d < 10 \<Longrightarrow> (of_char (digit_char d) :: nat) = 48 + d"
  by (simp add: digit_char_def)

lemma digit_char_0: "digit_char 0 = CHR ''0''"
  by (rule of_char_eqI [where ?'a = nat]) (simp add: digit_char_def)

lemma is_digit_digit_char: "d < 10 \<Longrightarrow> is_digit (digit_char d)"
  by (simp add: is_digit_def of_char_digit_char)

lemma decnum_snoc: "decnum (ds @ [c]) = 10 * decnum ds + ((of_char c :: nat) - 48)"
  by (simp add: decnum_def)

lemma decimal_digits: "list_all is_digit (decimal n)"
proof (induction n rule: decimal.induct)
  case (1 n)
  then show ?case
    by (subst decimal.simps) (simp add: is_digit_digit_char)
qed

lemma decnum_decimal: "decnum (decimal n) = n"
proof (induction n rule: decimal.induct)
  case (1 n)
  show ?case
  proof (cases "n < 10")
    case True
    then show ?thesis
      by (subst decimal.simps) (simp add: decnum_def of_char_digit_char)
  next
    case False
    with 1 have "decnum (decimal (n div 10)) = n div 10"
      by simp
    with False show ?thesis
      by (subst decimal.simps) (simp add: decnum_snoc of_char_digit_char)
  qed
qed

lemma decimal_canonical:
  "n = 0 \<or> 10 ^ (length (decimal n) - 1) \<le> n"
proof (induction n rule: decimal.induct)
  case (1 n)
  show ?case
  proof (cases "n < 10")
    case True
    then show ?thesis
      by (subst decimal.simps) (cases "n = 0"; simp)
  next
    case False
    with 1 have "10 ^ (length (decimal (n div 10)) - 1) \<le> n div 10"
      by auto
    then have "10 * 10 ^ (length (decimal (n div 10)) - 1) \<le> n"
      by simp
    moreover have "decimal (n div 10) \<noteq> []"
      by (subst decimal.simps) simp
    then have "length (decimal (n div 10)) = Suc (length (decimal (n div 10)) - 1)"
      by simp
    ultimately show ?thesis
      using False by (subst decimal.simps) (simp del: One_nat_def, metis power_Suc)
  qed
qed

section \<open>Rounding to the nearest double\<close>

lemma bit_length_bounds:
  "0 < n \<Longrightarrow> 2 ^ (bit_length n - 1) \<le> n \<and> n < 2 ^ bit_length n"
proof (induction n rule: bit_length.induct)
  case (1 n)
  show ?case
  proof (cases "n div 2 = 0")
    case True
    with 1 have "n = 1"
      by (simp add: div_eq_0_iff)
    then show ?thesis
      by (simp add: bit_length.simps)
  next
    case False
    with 1 have IH: "2 ^ (bit_length (n div 2) - 1) \<le> n div 2" "n div 2 < 2 ^ bit_length (n div 2)"
      by simp_all
    from False have pos: "0 < bit_length (n div 2)"
      by (subst bit_length.simps) simp
    have eq: "bit_length n = Suc (bit_length (n div 2))"
      using 1 by (subst bit_length.simps) simp
    from IH(1) have "2 * 2 ^ (bit_length (n div 2) - 1) \<le> n"
      by simp
    with pos have lower: "2 ^ bit_length (n div 2) \<le> n"
      by (cases "bit_length (n div 2)") simp_all
    from IH(2) have "n < 2 * 2 ^ bit_length (n div 2)"
      by simp
    with lower show ?thesis
      by (simp add: eq)
  qed
qed

lemma pow2_less_cancel: "(2::rat) powi m < 2 powi n \<Longrightarrow> m < n"
  using power_int_increasing [of n m "2::rat"] by (cases "n \<le> m") auto

lemma pow2_le_cancel: "(2::rat) powi m \<le> 2 powi n \<Longrightarrow> m \<le> n"
  using power_int_strict_increasing [of n m "2::rat"] by (cases "n < m") auto

lemma ilog2_bounds:
  assumes "0 < x"
  shows "2 powi ilog2 x \<le> x" and "x < 2 powi (ilog2 x + 1)"
proof -
  obtain p q where pq: "quotient_of x = (p, q)"
    by (cases "quotient_of x")
  then have q: "0 < q" and x: "x = of_int p / of_int q"
    by (simp_all add: quotient_of_denom_pos quotient_of_div)
  with assms have p: "0 < p"
    by (simp add: zero_less_divide_iff)
  define a b where "a = bit_length (nat p)" and "b = bit_length (nat q)"
  from p q have pb: "2 ^ (a - 1) \<le> nat p" "nat p < 2 ^ a" and qb: "2 ^ (b - 1) \<le> nat q" "nat q < 2 ^ b"
    using bit_length_bounds [of "nat p"] bit_length_bounds [of "nat q"] by (simp_all add: a_def b_def)
  have a0: "0 < a" and b0: "0 < b"
    using pb(2) qb(2) p q by (auto intro: Nat.gr0I)
  from pb p have pr: "(2::rat) ^ (a - 1) \<le> of_int p" "(of_int p :: rat) < 2 ^ a"
    by (metis of_nat_le_iff of_nat_numeral of_nat_power of_int_of_nat_eq nat_0_le less_imp_le,
        metis of_nat_less_iff of_nat_numeral of_nat_power of_int_of_nat_eq nat_0_le less_imp_le)
  from qb q have qr: "(2::rat) ^ (b - 1) \<le> of_int q" "(of_int q :: rat) < 2 ^ b"
    by (metis of_nat_le_iff of_nat_numeral of_nat_power of_int_of_nat_eq nat_0_le less_imp_le,
        metis of_nat_less_iff of_nat_numeral of_nat_power of_int_of_nat_eq nat_0_le less_imp_le)
  have qpos: "(0::rat) < of_int q"
    using q by simp
  define d where "d = int a - int b"
  have il: "ilog2 x = (if 2 powi d \<le> x then d else d - 1)"
    by (simp add: ilog2_def pq a_def b_def d_def)
  have up: "x < 2 powi (d + 1)"
  proof -
    have "x < 2 ^ a / of_int q"
      unfolding x using pr(2) qpos by (simp add: divide_strict_right_mono)
    also have "\<dots> \<le> 2 ^ a / 2 ^ (b - 1)"
      using qr(1) by (simp add: frac_le)
    also have "\<dots> = 2 powi (int a - int (b - 1))"
      by (simp add: power_int_diff)
    also have "int a - int (b - 1) = d + 1"
      using b0 by (simp add: d_def)
    finally show ?thesis .
  qed
  have low: "2 powi (d - 1) \<le> x"
  proof -
    have "d - 1 = int (a - 1) - int b"
      using a0 by (cases a) (simp_all add: d_def)
    then have "2 powi (d - 1) = (2::rat) powi (int (a - 1) - int b)"
      by simp
    also have "\<dots> = 2 ^ (a - 1) / 2 ^ b"
      by (simp add: power_int_diff)
    also have "\<dots> \<le> of_int p / 2 ^ b"
      using pr(1) by (simp add: divide_right_mono)
    also have "\<dots> \<le> x"
      unfolding x using qr(2) qpos p by (simp add: frac_le)
    finally show ?thesis .
  qed
  show "2 powi ilog2 x \<le> x"
    using low by (simp add: il)
  show "x < 2 powi (ilog2 x + 1)"
    using up by (simp add: il)
qed

lemma ilog2_unique:
  assumes "2 powi e \<le> x" "x < 2 powi (e + 1)"
  shows "ilog2 x = e"
proof -
  have "(0::rat) < 2 powi e"
    by simp
  with assms have pos: "0 < x"
    by linarith
  note b = ilog2_bounds [OF pos]
  from b(1) assms(2) have "(2::rat) powi ilog2 x < 2 powi (e + 1)"
    by linarith
  then have "ilog2 x < e + 1"
    by (rule pow2_less_cancel)
  moreover from b(2) assms(1) have "(2::rat) powi e < 2 powi (ilog2 x + 1)"
    by linarith
  then have "e < ilog2 x + 1"
    by (rule pow2_less_cancel)
  ultimately show ?thesis
    by simp
qed

lemma ilog2_mono:
  assumes "0 < x" "x \<le> y"
  shows "ilog2 x \<le> ilog2 y"
proof -
  from assms have "0 < y"
    by simp
  from ilog2_bounds(1) [OF assms(1)] ilog2_bounds(2) [OF this] assms(2)
  have "(2::rat) powi ilog2 x < 2 powi (ilog2 y + 1)"
    by linarith
  then have "ilog2 x < ilog2 y + 1"
    by (rule pow2_less_cancel)
  then show ?thesis
    by simp
qed

lemma rhe_of_int [simp]: "rhe (of_int k) = k"
  by (simp add: rhe_def)

lemma rhe_lower: "of_int k \<le> q \<Longrightarrow> k \<le> rhe q"
proof -
  assume "of_int k \<le> q"
  then have "k \<le> \<lfloor>q\<rfloor>"
    by (simp add: le_floor_iff)
  then show ?thesis
    by (simp add: rhe_def Let_def)
qed

lemma rhe_upper: "q \<le> of_int k \<Longrightarrow> rhe q \<le> k"
proof (cases "q = of_int k")
  case True
  then show ?thesis
    by simp
next
  case False
  assume "q \<le> of_int k"
  with False have "q < of_int k"
    by simp
  then have "\<lfloor>q\<rfloor> < k"
    by (simp add: floor_less_iff)
  then show ?thesis
    by (simp add: rhe_def Let_def)
qed

lemma ulp_pos [simp]: "0 < ulp x"
  by (simp add: ulp_def)

lemma ulp_nonneg [simp]: "0 \<le> ulp x"
  using ulp_pos [of x] by (rule less_imp_le)

lemma ulp_neq0 [simp]: "ulp x \<noteq> 0"
  by (metis ulp_pos less_irrefl)

lemma ulp_minus [simp]: "ulp (- x) = ulp x"
  by (simp add: ulp_def expo_def)

lemma ulp_expo: "2 ^ 52 * ulp x = 2 powi expo x"
  by (simp add: ulp_def power_int_diff)

lemma expo_mono: "0 < x \<Longrightarrow> x \<le> y \<Longrightarrow> expo x \<le> expo y"
  using ilog2_mono [of x y] by (simp add: expo_def)

lemma rnd_pos:
  "0 < x \<Longrightarrow> rnd x =
     (if 2 ^ 1024 \<le> of_int (rhe (x / ulp x)) * ulp x then PosInf
      else Finite (of_int (rhe (x / ulp x)) * ulp x))"
  by (simp add: rnd_def Let_def)

lemma rnd_minus: "rnd (- x) = js_neg (rnd x)"
  by (cases "x = 0") (auto simp: rnd_def Let_def sgn_if)

lemma is_double_minus [simp]: "is_double (- x) = is_double x"
  by (cases "rnd x") (auto simp: is_double_def rnd_minus)

lemma is_double_posD:
  assumes "is_double a" "0 < a"
  shows "a = of_int (rhe (a / ulp a)) * ulp a" and "a < 2 ^ 1024"
  using assms by (simp_all add: is_double_def rnd_pos split: if_splits)

lemma rnd_pos_lower:
  assumes a: "is_double a" "0 < a" and ax: "a \<le> x"
  shows "js_le (Finite a) (rnd x)"
proof -
  from assms have x: "0 < x"
    by simp
  define kx where "kx = rhe (x / ulp x)"
  have "a \<le> of_int kx * ulp x"
  proof (cases "expo a = expo x")
    case True
    then have u: "ulp a = ulp x"
      using ulp_expo [of a] ulp_expo [of x] by simp
    define ka where "ka = rhe (a / ulp a)"
    from is_double_posD(1) [OF a] have ka: "a = of_int ka * ulp x"
      by (simp add: ka_def u)
    then have "of_int ka = a / ulp x"
      by (simp add: nonzero_eq_divide_eq)
    also have "\<dots> \<le> x / ulp x"
      by (rule divide_right_mono) (use ax in simp_all)
    finally have "ka \<le> kx"
      unfolding kx_def by (rule rhe_lower)
    then have "of_int ka * ulp x \<le> of_int kx * ulp x"
      by (simp add: mult_right_mono)
    with ka show ?thesis
      by simp
  next
    case False
    with expo_mono [OF a(2) ax] have less: "expo a < expo x"
      by simp
    then have "expo x = ilog2 x"
      using x by (simp add: expo_def max_def split: if_splits)
    with ilog2_bounds(1) [OF x] have "2 powi expo x \<le> x"
      by simp
    then have "2 ^ 52 * ulp x \<le> x"
      by (simp only: ulp_expo)
    then have "of_int (2 ^ 52) \<le> x / ulp x"
      by (simp add: pos_le_divide_eq)
    then have "2 ^ 52 \<le> kx"
      unfolding kx_def by (rule rhe_lower)
    then have "(2 ^ 52 :: rat) \<le> of_int kx"
      by (metis of_int_le_iff of_int_numeral of_int_power)
    then have "2 ^ 52 * ulp x \<le> of_int kx * ulp x"
      by (simp add: mult_right_mono)
    then have "2 powi expo x \<le> of_int kx * ulp x"
      by (simp only: ulp_expo)
    moreover have "a < 2 powi (ilog2 a + 1)"
      using ilog2_bounds(2) [OF a(2)] .
    moreover have "ilog2 a + 1 \<le> expo x"
      using less a(2) by (simp add: expo_def)
    then have "(2::rat) powi (ilog2 a + 1) \<le> 2 powi expo x"
      by (simp add: power_int_increasing)
    ultimately show ?thesis
      by linarith
  qed
  then show ?thesis
    using x by (simp add: rnd_pos kx_def)
qed

lemma rnd_pos_upper:
  assumes a: "is_double a" and x: "0 < x" and xa: "x \<le> a"
  shows "js_le (rnd x) (Finite a)"
proof -
  from assms have a0: "0 < a"
    by simp
  define kx where "kx = rhe (x / ulp x)"
  have "of_int kx * ulp x \<le> a"
  proof (cases "expo a = expo x")
    case True
    then have u: "ulp a = ulp x"
      using ulp_expo [of a] ulp_expo [of x] by simp
    define ka where "ka = rhe (a / ulp a)"
    from is_double_posD(1) [OF a a0] have ka: "a = of_int ka * ulp x"
      by (simp add: ka_def u)
    have "x / ulp x \<le> a / ulp x"
      by (rule divide_right_mono) (use xa in simp_all)
    also have "\<dots> = of_int ka"
      using ka by (simp add: nonzero_divide_eq_eq)
    finally have "kx \<le> ka"
      unfolding kx_def by (rule rhe_upper)
    then have "of_int kx * ulp x \<le> of_int ka * ulp x"
      by (simp add: mult_right_mono)
    with ka show ?thesis
      by simp
  next
    case False
    with expo_mono [OF x xa] have less: "expo x < expo a"
      by simp
    then have ea: "expo a = ilog2 a"
      using a0 by (simp add: expo_def max_def split: if_splits)
    have "ilog2 x + 1 \<le> expo x + 1"
      using x by (simp add: expo_def)
    then have "(2::rat) powi (ilog2 x + 1) \<le> 2 powi (expo x + 1)"
      by (simp add: power_int_increasing)
    with ilog2_bounds(2) [OF x] have "x \<le> 2 powi (expo x + 1)"
      by linarith
    also have "\<dots> = 2 * 2 powi expo x"
      by (simp add: power_int_add)
    also have "\<dots> = 2 ^ 53 * ulp x"
      using ulp_expo [of x] by simp
    finally have "x / ulp x \<le> of_int (2 ^ 53)"
      by (simp add: pos_divide_le_eq)
    then have "kx \<le> 2 ^ 53"
      unfolding kx_def by (rule rhe_upper)
    then have "of_int kx \<le> (2 ^ 53 :: rat)"
      by (metis of_int_le_iff of_int_numeral of_int_power)
    then have "of_int kx * ulp x \<le> 2 ^ 53 * ulp x"
      by (simp add: mult_right_mono)
    also have "\<dots> = 2 powi (expo x + 1)"
      using ulp_expo [of x] by (simp add: power_int_add)
    also have "\<dots> \<le> 2 powi expo a"
      using less by (simp add: power_int_increasing)
    also have "\<dots> \<le> a"
      using ilog2_bounds(1) [OF a0] by (simp add: ea)
    finally show ?thesis .
  qed
  moreover have "a < 2 ^ 1024"
    using is_double_posD(2) [OF a a0] .
  ultimately show ?thesis
    using x by (simp add: rnd_pos kx_def)
qed

lemma js_le_neg: "js_le (js_neg a) (js_neg b) = js_le b a"
  by (cases a; cases b) simp_all

lemma rnd_nonneg: "0 \<le> x \<Longrightarrow> js_le (Finite 0) (rnd x)"
proof (cases "x = 0")
  case True
  then show ?thesis
    by (simp add: rnd_def)
next
  case False
  assume "0 \<le> x"
  with False have "0 < x"
    by simp
  moreover have "0 \<le> rhe (x / ulp x)"
    using \<open>0 < x\<close> by (intro rhe_lower) simp
  then have "0 \<le> of_int (rhe (x / ulp x)) * ulp x"
    by simp
  ultimately show ?thesis
    by (simp add: rnd_pos)
qed

lemma rnd_lower:
  assumes "is_double a" "a \<le> x"
  shows "js_le (Finite a) (rnd x)"
proof -
  consider "0 < a" | "a \<le> 0" "0 \<le> x" | "x < 0"
    by linarith
  then show ?thesis
  proof cases
    case 1
    with assms show ?thesis
      by (simp add: rnd_pos_lower)
  next
    case 2
    from rnd_nonneg [OF 2(2)] 2(1) show ?thesis
      by (cases "rnd x") simp_all
  next
    case 3
    with assms have "js_le (rnd (- x)) (Finite (- a))"
      by (intro rnd_pos_upper) simp_all
    then have "js_le (js_neg (rnd x)) (js_neg (Finite a))"
      by (simp add: rnd_minus)
    then show ?thesis
      by (simp only: js_le_neg)
  qed
qed

lemma rnd_upper:
  assumes "is_double a" "x \<le> a"
  shows "js_le (rnd x) (Finite a)"
proof -
  from assms have "js_le (Finite (- a)) (rnd (- x))"
    by (intro rnd_lower) simp_all
  then have "js_le (js_neg (Finite a)) (js_neg (rnd x))"
    by (simp add: rnd_minus)
  then show ?thesis
    by (simp only: js_le_neg)
qed

lemma rnd_between:
  assumes "is_double a" "is_double b" "a \<le> x" "x \<le> b"
  shows "\<exists>y. rnd x = Finite y \<and> a \<le> y \<and> y \<le> b"
  using rnd_lower [OF assms(1,3)] rnd_upper [OF assms(2,4)]
  by (cases "rnd x") simp_all

lemma is_doubleI:
  assumes "0 < x" "x / ulp x = of_int m" "x < 2 ^ 1024"
  shows "is_double x"
proof -
  from assms(2) have "of_int m * ulp x = x"
    by (simp add: nonzero_divide_eq_eq)
  with assms show ?thesis
    by (simp add: is_double_def rnd_pos)
qed

lemma is_double_0 [simp]: "is_double 0"
  by (simp add: is_double_def rnd_def)

lemma is_double_nat:
  assumes "0 < k" "k \<le> 2 ^ 53"
  shows "is_double (of_int k)"
proof -
  define x :: rat where "x = of_int k"
  have x: "0 < x" "1 \<le> x" "x \<le> 2 ^ 53"
    using assms by (simp_all add: x_def)
  define e where "e = ilog2 x"
  note b = ilog2_bounds [OF x(1), folded e_def]
  have "(2::rat) powi 0 < 2 powi (e + 1)"
    using b(2) x(2) by simp
  then have e0: "0 \<le> e"
    using pow2_less_cancel [of 0 "e + 1"] by simp
  have "(2::rat) powi e \<le> 2 powi 53"
    using b(1) x(3) by simp
  then have e53: "e \<le> 53"
    by (rule pow2_le_cancel)
  have ex: "expo x = e"
    using x(1) e0 by (simp add: expo_def e_def)
  have u: "2 ^ 52 * ulp x = 2 ^ nat e"
    using ulp_expo [of x] e0 by (simp add: ex power_int_def)
  have "\<exists>m. x / ulp x = of_int m"
  proof (cases "e \<le> 52")
    case True
    define t :: rat where "t = 2 ^ (52 - nat e)"
    define P :: rat where "P = 2 ^ nat e"
    have tP: "t * P = 2 ^ 52"
      using True e0 by (simp add: t_def P_def flip: power_add)
    have "2 ^ 52 * (t * ulp x) = t * (2 ^ 52 * ulp x)"
      by (simp only: mult.left_commute)
    also have "\<dots> = t * P"
      by (simp only: u P_def)
    also have "\<dots> = 2 ^ 52 * 1"
      by (simp add: tP)
    finally have tu: "t * ulp x = 1"
      by (simp only: mult_cancel_left) simp
    have "x / ulp x = x * (t * ulp x) / ulp x"
      by (simp only: tu mult_1_right)
    also have "\<dots> = x * t"
      by simp
    finally have "x / ulp x = x * 2 ^ (52 - nat e)"
      by (simp only: t_def)
    also have "\<dots> = of_int (k * 2 ^ (52 - nat e))"
      by (simp add: x_def)
    finally show ?thesis ..
  next
    case False
    with e53 have e: "e = 53"
      by simp
    with b(1) x(3) have "x = 2 ^ 53"
      by simp
    moreover from u e have "ulp x = 2"
      by simp
    ultimately have "x / ulp x = of_int (2 ^ 52)"
      by simp
    then show ?thesis ..
  qed
  then obtain m where "x / ulp x = of_int m" ..
  moreover have "x < 2 ^ 1024"
    using x(3) by (rule le_less_trans) simp
  ultimately show ?thesis
    using x(1) unfolding x_def [symmetric] by (intro is_doubleI)
qed

lemma is_double_int:
  assumes "\<bar>k\<bar> \<le> 2 ^ 53"
  shows "is_double (of_int k)"
proof -
  consider "0 < k" | "k = 0" | "k < 0"
    by linarith
  then show ?thesis
  proof cases
    case 1
    with assms show ?thesis
      by (simp add: is_double_nat)
  next
    case 2
    then show ?thesis
      by simp
  next
    case 3
    with assms have "is_double (of_int (- k))"
      by (intro is_double_nat) simp_all
    then show ?thesis
      by simp
  qed
qed

lemma rnd_int: "\<bar>k\<bar> \<le> 2 ^ 53 \<Longrightarrow> rnd (of_int k) = IntNum k"
  using is_double_int [of k] by (simp add: is_double_def)

subsection \<open>The digest is 128 hex digits\<close>

lemma length8E:
  assumes "length xs = 8"
  obtains a b c d e f g h where "xs = [a, b, c, d, e, f, g, h]"
proof -
  from assms obtain a b c d e f g h where "xs = [a, b, c, d, e, f, g, h]"
    by (auto simp: length_Suc_conv numeral_eq_Suc)
  then show ?thesis ..
qed

lemma length_step: "length st = 8 \<Longrightarrow> length (step st kw) = 8"
  by (erule length8E) (simp add: step_def Let_def)

lemma length_foldl_step: "length st = 8 \<Longrightarrow> length (foldl step st kws) = 8"
  by (induction kws arbitrary: st) (simp_all add: length_step)

lemma length_compress: "length hs = 8 \<Longrightarrow> length (compress hs blk) = 8"
  by (simp add: compress_def length_foldl_step)

lemma length_foldl_compress: "length hs = 8 \<Longrightarrow> length (foldl compress hs blks) = 8"
  by (induction blks arbitrary: hs) (simp_all add: length_compress)

lemma length_hex64: "length (hex64 w) = 16"
  by (simp add: hex64_def)

lemma is_hex_hexdigit: "n < 16 \<Longrightarrow> is_hex (hexdigit n)"
proof -
  assume "n < 16"
  then have "n \<in> {0, 1, 2, 3, 4, 5, 6, 7, 8, 9, 10, 11, 12, 13, 14, 15}"
    by simp presburger
  then show ?thesis
    by (auto simp: hexdigit_def is_hex_def hexval_def)
qed

lemma nibble_less: "unat (w AND (15 :: w64)) < 16"
proof -
  have "unat (w AND 15) \<le> unat (15 :: w64)"
    by (rule word_and_le1 [THEN word_le_nat_alt [THEN iffD1]])
  then show ?thesis
    by simp
qed

lemma hex64_is_hex: "list_all is_hex (hex64 w)"
  by (simp add: hex64_def list_all_iff is_hex_hexdigit nibble_less)

lemma length_concat_const:
  "(\<And>x. x \<in> set xs \<Longrightarrow> length (f x) = k) \<Longrightarrow> length (concat (map f xs)) = k * length xs"
  by (induction xs) simp_all

lemma length_sha512: "length (sha512 s) = 128"
proof -
  have "length (foldl compress H512 (map (map be64 \<circ> chunks 8) (chunks 128 (pad (utf8 s))))) = 8"
    by (rule length_foldl_compress) (simp add: H512_def)
  then show ?thesis
    unfolding sha512_def by (subst length_concat_const [where k = 16]) (simp_all add: length_hex64)
qed

lemma sha512_is_hex: "list_all is_hex (sha512 s)"
  by (simp add: sha512_def list_all_iff) (use hex64_is_hex in \<open>auto simp: list_all_iff\<close>)

subsection \<open>\<open>parseInt\<close> on a string of hex digits\<close>

lemma hexnum_foldl_bound:
  "foldl (\<lambda>acc c. 16 * acc + hexdig c) acc z < (acc + 1) * 16 ^ length z"
proof (induction z arbitrary: acc)
  case Nil
  show ?case by simp
next
  case (Cons c z)
  have "foldl (\<lambda>acc c. 16 * acc + hexdig c) (16 * acc + hexdig c) z
      < (16 * acc + hexdig c + 1) * 16 ^ length z"
    by (rule Cons.IH)
  also have "\<dots> \<le> (16 * (acc + 1)) * 16 ^ length z"
    using hexdig_less [of c] by (intro mult_right_mono) simp_all
  finally show ?case
    by (simp add: algebra_simps)
qed

lemma hexnum_less: "hexnum z < 16 ^ length z"
  using hexnum_foldl_bound [of 0 z] by (simp add: hexnum_def)

lemma parseInt16_hex_string:
  assumes "z \<noteq> []" "list_all is_hex z"
  shows "parseInt16 z = IntNum (int (hexnum z))"
proof -
  from assms obtain c cs where z: "z = c # cs" and c: "is_hex c" and cs: "list_all is_hex cs"
    by (cases z) auto
  have dw: "dropWhile is_space z = z"
    using is_hex_cases [OF c] by (simp add: z)
  have ss: "strip_sign z = (1, z)"
    using is_hex_cases [OF c] by (simp add: z strip_sign_def)
  have s0: "strip_0x z = z"
  proof (cases cs)
    case Nil
    then show ?thesis by (simp add: z strip_0x_def)
  next
    case (Cons b bs)
    with cs have "is_hex b" by simp
    from is_hex_cases [OF this] show ?thesis
      by (simp add: z Cons strip_0x_def)
  qed
  have tw: "takeWhile is_hex z = z"
    using assms(2) by (simp add: takeWhile_eq_all_conv list_all_iff)
  show ?thesis
    by (simp only: parseInt16_def dw ss split s0 tw Let_def) (simp add: assms(1))
qed

lemma digest_prefix:
  "length (take 8 (sha512 s)) = 8" "list_all is_hex (take 8 (sha512 s))"
  "hexnum (take 8 (sha512 s)) < 2 ^ 32"
  "parseInt16 (take 8 (sha512 s)) = IntNum (int (hexnum (take 8 (sha512 s))))"
proof -
  show len: "length (take 8 (sha512 s)) = 8"
    by (simp add: length_sha512)
  show hex: "list_all is_hex (take 8 (sha512 s))"
    using sha512_is_hex [of s] by (auto simp: list_all_iff dest: in_set_takeD)
  show "hexnum (take 8 (sha512 s)) < 2 ^ 32"
    using hexnum_less [of "take 8 (sha512 s)"] unfolding len by simp
  from len have "take 8 (sha512 s) \<noteq> []"
    by auto
  then show "parseInt16 (take 8 (sha512 s)) = IntNum (int (hexnum (take 8 (sha512 s))))"
    using hex by (rule parseInt16_hex_string)
qed

section \<open>Numbers as strings, and the seed combiner\<close>

lemma digit_char_simps:
  "digit_char 0 = CHR ''0''" "digit_char (Suc 0) = CHR ''1''" "digit_char 2 = CHR ''2''"
  "digit_char 3 = CHR ''3''" "digit_char 4 = CHR ''4''" "digit_char 5 = CHR ''5''"
  "digit_char 6 = CHR ''6''" "digit_char 7 = CHR ''7''" "digit_char 8 = CHR ''8''"
  "digit_char 9 = CHR ''9''"
  by (rule of_char_eqI [where ?'a = nat], simp add: digit_char_def)+

lemma candidate_safe:
  assumes "x < 2 ^ 53" "candidate x m = Some v"
  shows "v = x"
proof -
  define lo where "lo = x div 10 ^ m * 10 ^ m"
  have "x = lo + x mod 10 ^ m"
    by (simp only: lo_def div_mult_mod_eq)
  moreover have "x mod 10 ^ m < 10 ^ m"
    by simp
  ultimately have lo: "lo \<le> x" and hi: "x + 1 \<le> lo + 10 ^ m"
    by linarith+
  have "\<bar>int lo\<bar> \<le> 2 ^ 53"
    using lo assms(1) by simp
  then have rlo: "rnd (of_nat lo) = Finite (of_nat lo)"
    using rnd_int [of "int lo"] by simp
  have "is_double (of_nat (x + 1))"
    using is_double_int [of "int (x + 1)"] assms(1) by simp
  moreover have "(of_nat (x + 1) :: rat) \<le> of_nat (lo + 10 ^ m)"
    using hi by (simp only: of_nat_le_iff)
  ultimately have "js_le (Finite (of_nat (x + 1))) (rnd (of_nat (lo + 10 ^ m)))"
    by (rule rnd_lower)
  then have rhi: "rnd (of_nat (lo + 10 ^ m)) \<noteq> Finite (of_nat x)"
    by auto
  from assms(2) show ?thesis
    unfolding candidate_def lo_def [symmetric] Let_def using rlo rhi
    by (auto split: if_splits)
qed

lemma shortest_from_safe:
  assumes "x < 2 ^ 53"
  shows "shortest_from x ms = x"
proof (induction ms)
  case Nil
  show ?case by simp
next
  case (Cons m ms)
  show ?case
  proof (cases "candidate x m")
    case None
    with Cons show ?thesis by simp
  next
    case (Some v)
    with candidate_safe [OF assms this] show ?thesis by simp
  qed
qed

lemma length_decimal_less:
  assumes "n < 10 ^ k" "0 < k"
  shows "length (decimal n) \<le> k"
proof (cases "n = 0")
  case True
  then show ?thesis
    using assms(2) by (subst decimal.simps) simp
next
  case False
  with decimal_canonical [of n] have "(10::nat) ^ (length (decimal n) - 1) \<le> n"
    by blast
  from this assms(1) have "(10::nat) ^ (length (decimal n) - 1) < 10 ^ k"
    by (rule le_less_trans)
  then have "length (decimal n) - 1 < k"
    by (rule power_less_imp_less_exp [rotated]) simp
  then show ?thesis
    by linarith
qed

lemma numberToString_safe:
  assumes "x < 2 ^ 53"
  shows "numberToString x = decimal x"
proof -
  have "x < 10 ^ 21"
    using assms by (rule less_trans) simp
  then have "length (decimal x) \<le> 21"
    by (rule length_decimal_less) simp
  then show ?thesis
    using assms by (simp add: numberToString_def shortest_def shortest_from_safe)
qed

lemma shortest_first:
  assumes "candidate x (length (decimal x) - 1) = Some v"
  shows "shortest x = v"
proof -
  have "decimal x \<noteq> []"
    by (subst decimal.simps) simp
  then obtain d where "length (decimal x) = Suc d"
    by (cases "decimal x") auto
  with assms show ?thesis
    by (simp add: shortest_def)
qed

lemmas rnd_eval = rnd_def ulp_def expo_def ilog2_def rhe_def bit_length.simps Let_def

lemma decimal_10_21: "decimal 1000000000000000000000 = ''1000000000000000000000''"
  by (simp add: decimal.simps digit_char_simps)

lemma numberToString_10_21: "numberToString 1000000000000000000000 = ''1e+21''"
proof -
  have cand: "candidate 1000000000000000000000 21 = Some 1000000000000000000000"
    by (simp add: candidate_def rnd_eval)
  have len: "length (decimal 1000000000000000000000) - 1 = 21"
    by (simp add: decimal_10_21)
  have "shortest 1000000000000000000000 = 1000000000000000000000"
    by (rule shortest_first) (simp only: len cand)
  then show ?thesis
    by (simp add: numberToString_def decimal_10_21 strip_zeros_def decimal.simps digit_char_simps)
qed

text \<open>
  C9 (as the code has it).  For every pair of strings and every non-negative integer
  nonce below \<open>2 ^ 53\<close>, \<open>combine\<close> returns the client seed, the server seed and the
  decimal numeral of the nonce (digits only, denoting the nonce, without a leading
  zero), one directly after the other: the length is the sum of the three lengths, so
  nothing separates them.
\<close>

theorem combine_is_concatenation:
  assumes "nonce < 2 ^ 53"
  shows "combine client server nonce = client @ server @ decimal nonce \<and>
   list_all is_digit (decimal nonce) \<and>
   decnum (decimal nonce) = nonce \<and>
   (nonce = 0 \<or> 10 ^ (length (decimal nonce) - 1) \<le> nonce) \<and>
   length (combine client server nonce) =
     length client + length server + length (decimal nonce)"
  using decimal_canonical [of nonce] assms
  by (simp add: combine_def numberToString_safe decimal_digits decnum_decimal)

text \<open>In particular \<open>combine("a", "b", 0) = "ab0"\<close>.\<close>

theorem combine_is_concatenation_witness:
  "(0::nat) < 2 ^ 53 \<and> combine ''a'' ''b'' 0 = ''ab0'' \<and> decnum ''0'' = 0"
  using combine_is_concatenation [of 0 "''a''" "''b''"]
  by (simp add: decimal.simps digit_char_simps)

text \<open>From \<open>10 ^ 21\<close> on the nonce is printed in exponent notation.\<close>

theorem combine_large_nonce_counterexample:
  "combine ''a'' ''b'' (10 ^ 21) = ''ab1e+21'' \<and>
   decimal (10 ^ 21) = ''1000000000000000000000''"
  by (simp add: combine_def numberToString_10_21 decimal_10_21)

section \<open>Properties of \<open>generateInteger\<close>\<close>

lemma js_sub_int: "js_sub (IntNum a) (IntNum b) = rnd (of_int (a - b))"
  by (simp add: js_sub_def)

lemma js_add_int: "js_add (IntNum a) (IntNum b) = rnd (of_int (a + b))"
  by simp


lemma js_rem_neg:
  assumes "0 < m"
  shows "js_rem (IntNum (int h)) (IntNum (- m)) = IntNum (int h mod m)"
proof (cases "h = 0")
  case True
  with assms show ?thesis
    by simp
next
  case False
  with assms have "0 < (of_int (int h) :: rat) / of_int m"
    by simp
  then have neg: "\<not> 0 \<le> (of_int (int h) :: rat) / of_int (- m)"
    by simp
  have "\<lceil>(of_int (int h) :: rat) / of_int (- m)\<rceil> = - \<lfloor>(of_int (int h) :: rat) / of_int m\<rfloor>"
    by (simp add: ceiling_def)
  also have "\<dots> = - (int h div m)"
    by (simp only: floor_divide_of_int_eq)
  finally have c: "\<lceil>(of_int (int h) :: rat) / of_int (- m)\<rceil> = - (int h div m)" .
  have "int h mod m = int h - (- m) * (- (int h div m))"
    by (simp add: minus_mult_div_eq_mod)
  then have "(of_int (int h) :: rat) - of_int (- m) * of_int (- (int h div m)) = of_int (int h mod m)"
    by (simp only: of_int_diff of_int_mult)
  with neg c assms show ?thesis
    by (simp del: of_int_of_nat_eq of_int_minus)
qed




lemma generateInteger_unfold:
  "generateInteger c s n (IntNum mn) (IntNum mx) =
     js_add (js_rem (IntNum (int (hexnum (take 8 (sha512 (combine c s n))))))
                    (js_add (rnd (of_int (mx - mn))) (Finite 1)))
            (IntNum mn)"
  by (simp only: generateInteger_def Let_def digest_prefix(4) js_sub_int)




lemma generateInteger_reversed:
  fixes mn mx :: int
  assumes "mx < mn" "\<bar>mn\<bar> \<le> 2 ^ 52" "\<bar>mx\<bar> \<le> 2 ^ 52"
  shows "generateInteger c s n (IntNum mn) (IntNum mx) =
     (if mx = mn - 1 then NaN
      else IntNum (int (hexnum (take 8 (sha512 (combine c s n)))) mod (mn - mx - 1) + mn))"
proof -
  define h where "h = hexnum (take 8 (sha512 (combine c s n)))"
  have "h < 2 ^ 32"
    unfolding h_def by (rule digest_prefix(3))
  then have hi: "int h < 2 ^ 32"
    by (metis of_nat_less_iff of_nat_numeral of_nat_power)
  define m where "m = mn - mx - 1"
  have m: "0 \<le> m"
    using assms(1) by (simp add: m_def)
  have "rnd (of_int (mx - mn)) = IntNum (mx - mn)"
    using assms by (intro rnd_int) simp
  moreover have "rnd (of_int (mx - mn + 1)) = IntNum (- m)"
    using assms by (subst rnd_int) (simp_all add: m_def)
  ultimately have range: "js_add (rnd (of_int (mx - mn))) (Finite 1) = IntNum (- m)"
    by simp
  show ?thesis
  proof (cases "mx = mn - 1")
    case True
    then have "m = 0"
      by (simp add: m_def)
    then show ?thesis
      unfolding generateInteger_unfold range using True by simp
  next
    case False
    with assms(1) have pos: "0 < m"
      by (simp add: m_def)
    have "0 \<le> int h mod m" "int h mod m \<le> int h"
      using pos by (simp_all add: zmod_le_nonneg_dividend)
    with hi assms have "\<bar>int h mod m + mn\<bar> \<le> 2 ^ 53"
      by simp
    then have "rnd (of_int (int h mod m + mn)) = IntNum (int h mod m + mn)"
      by (rule rnd_int)
    moreover have "generateInteger c s n (IntNum mn) (IntNum mx) = rnd (of_int (int h mod m + mn))"
      unfolding generateInteger_unfold range h_def [symmetric]
      by (simp only: js_rem_neg [OF pos] js_add_int)
    ultimately show ?thesis
      using False by (simp add: m_def h_def)
  qed
qed

text \<open>
  C4 (as the code has it).  \<open>generateInteger\<close> does not check its range and does not
  fail.  For integers \<open>max < min\<close> (of magnitude up to \<open>2 ^ 52\<close>): when
  \<open>max = min - 1\<close> the range is 0 and the result is NaN; otherwise the range is
  negative, \<open>%\<close> takes the sign of the dividend, and the result is the integer
  \<open>h mod (min - max - 1) + min\<close>, where \<open>h\<close> is the 32-bit value read from the
  digest.
\<close>

theorem generateInteger_reversed_range:
  fixes mn mx :: int
  assumes "mx < mn" "\<bar>mn\<bar> \<le> 2 ^ 52" "\<bar>mx\<bar> \<le> 2 ^ 52"
  shows "generateInteger clientSeed serverSeed nonce (IntNum mn) (IntNum mx) =
     (if mx = mn - 1 then NaN
      else IntNum (int (hexnum (take 8 (sha512 (combine clientSeed serverSeed nonce))))
                     mod (mn - mx - 1) + mn))"
  using assms by (rule generateInteger_reversed)

theorem generateInteger_reversed_range_witness:
  "(1::int) < 5 \<and> \<bar>5::int\<bar> \<le> 2 ^ 52 \<and> \<bar>1::int\<bar> \<le> 2 ^ 52 \<and>
   generateInteger ''a'' ''b'' 0 (IntNum 5) (IntNum 1) =
     IntNum (int (hexnum (take 8 (sha512 (combine ''a'' ''b'' 0)))) mod 3 + 5)"
  using generateInteger_reversed_range [of 1 5 "''a''" "''b''" 0] by simp

theorem generateInteger_reversed_range_counterexample:
  "generateInteger ''a'' ''b'' 0 (IntNum 5) (IntNum 1) \<in> {IntNum 5, IntNum 6, IntNum 7} \<and>
   generateInteger ''a'' ''b'' 0 (IntNum 0) (IntNum (- 1)) = NaN"
proof -
  define h where "h = int (hexnum (take 8 (sha512 (combine ''a'' ''b'' 0))))"
  have "h mod 3 \<in> {0, 1, 2}"
    by auto
  moreover have "generateInteger ''a'' ''b'' 0 (IntNum 5) (IntNum 1) = IntNum (h mod 3 + 5)"
    using generateInteger_reversed [of 1 5 "''a''" "''b''" 0] by (simp add: h_def)
  moreover have "generateInteger ''a'' ''b'' 0 (IntNum 0) (IntNum (- 1)) = NaN"
    using generateInteger_reversed [of "- 1" 0 "''a''" "''b''" 0] by simp
  ultimately show ?thesis
    by auto
qed

section \<open>Decimal strings and floats\<close>

lemma is_digit_cases:
  "is_digit c \<Longrightarrow>
   \<not> is_space c \<and> c \<noteq> CHR ''-'' \<and> c \<noteq> CHR ''+'' \<and> c \<noteq> CHR ''.'' \<and> c \<noteq> CHR ''I''"
  by (auto simp: is_digit_def is_space_def)

lemma not_is_digit_point [simp]: "\<not> is_digit CHR ''.''"
  by (simp add: is_digit_def)

lemma is_digit_zero [simp]: "is_digit CHR ''0''"
  by (simp add: is_digit_def)

lemma decimal_nonempty [simp]: "decimal n \<noteq> []"
  by (subst decimal.simps) simp

lemma decnum_append: "decnum (xs @ ys) = decnum xs * 10 ^ length ys + decnum ys"
proof (induction ys rule: rev_induct)
  case Nil
  show ?case by (simp add: decnum_def)
next
  case (snoc y ys)
  have "decnum (xs @ ys @ [y]) = 10 * decnum (xs @ ys) + ((of_char y :: nat) - 48)"
    using decnum_snoc [of "xs @ ys" y] by simp
  with snoc show ?case
    by (simp add: decnum_snoc algebra_simps)
qed

lemma decnum_zeros [simp]: "decnum (replicate z CHR ''0'') = 0"
proof (induction z)
  case 0
  show ?case by (simp add: decnum_def)
next
  case (Suc z)
  have "replicate (Suc z) CHR ''0'' = replicate z CHR ''0'' @ [CHR ''0'']"
    by (simp add: replicate_append_same)
  then show ?case
    by (simp only: decnum_snoc Suc) simp
qed

lemma decnum_less: "list_all is_digit ds \<Longrightarrow> decnum ds < 10 ^ length ds"
proof (induction ds rule: rev_induct)
  case Nil
  show ?case by (simp add: decnum_def)
next
  case (snoc d ds)
  then have "decnum ds < 10 ^ length ds" and "(of_char d :: nat) - 48 < 10"
    by (auto simp: is_digit_def)
  then have "10 * decnum ds + ((of_char d :: nat) - 48) < 10 * 10 ^ length ds"
    by linarith
  then show ?case
    by (simp add: decnum_snoc)
qed

lemma parseFloat_digits_point:
  assumes "A \<noteq> []" "list_all is_digit A" "list_all is_digit B"
  shows "parseFloat (A @ CHR ''.'' # B) = rnd (of_nat (decnum (A @ B)) / 10 ^ length B)"
proof -
  from assms obtain a as where A: "A = a # as" and a: "is_digit a"
    by (cases A) auto
  let ?t = "A @ CHR ''.'' # B"
  have dw: "dropWhile is_space ?t = ?t"
    using is_digit_cases [OF a] by (simp add: A)
  have ss: "strip_sign ?t = (1, ?t)"
    using is_digit_cases [OF a] by (simp add: A strip_sign_def)
  have ip: "takeWhile is_digit ?t = A"
    using assms(2) by (simp add: takeWhile_append2 list_all_iff)
  have r: "dropWhile is_digit ?t = CHR ''.'' # B"
    using assms(2) by (simp add: dropWhile_append2 list_all_iff)
  have fp: "takeWhile is_digit B = B"
    using assms(3) by (simp add: list_all_iff)
  have inf: "(take 8 ?t = ''Infinity'') = False"
    using is_digit_cases [OF a] by (simp add: A)
  show ?thesis
    by (simp only: parseFloat_def dw ss split ip r fp Let_def list.case if_True inf if_False)
      (simp add: assms(1))
qed

lemma parseFloat_digits:
  assumes "A \<noteq> []" "list_all is_digit A"
  shows "parseFloat A = rnd (of_nat (decnum A))"
proof -
  from assms obtain a as where A: "A = a # as" and a: "is_digit a"
    by (cases A) auto
  have dw: "dropWhile is_space A = A"
    using is_digit_cases [OF a] by (simp add: A)
  have ss: "strip_sign A = (1, A)"
    using is_digit_cases [OF a] by (simp add: A strip_sign_def)
  have ip: "takeWhile is_digit A = A" and r: "dropWhile is_digit A = []"
    using assms(2) by (simp_all add: list_all_iff)
  have inf: "(take 8 A = ''Infinity'') = False"
    using is_digit_cases [OF a] by (simp add: A)
  show ?thesis
    by (simp only: parseFloat_def dw ss split ip r Let_def list.case inf if_False)
      (simp add: assms(1))
qed

lemma numberToString_byte: "numberToString (unat (b :: byte)) = decimal (unat b)"
proof -
  have "unat b < 2 ^ 8"
    using unsigned_less [of b, where ?'a = nat] by simp
  also have "(2::nat) ^ 8 < 2 ^ 53"
    by simp
  finally show ?thesis
    by (rule numberToString_safe)
qed

lemma join_bytes_digits: "list_all is_digit (join_bytes bytes)"
  by (induction bytes) (simp_all add: join_bytes_def numberToString_byte decimal_digits)

text \<open>The decimal fraction \<open>0.d\<^sub>1d\<^sub>2\<dots>\<close> written by the joined bytes.\<close>

lemma parseFloat_fraction:
  assumes "list_all is_digit ds"
  shows "\<exists>y. parseFloat (''0.'' @ ds) = Finite y \<and> 0 \<le> y \<and> y \<le> 1"
proof -
  have "parseFloat (''0.'' @ ds) = rnd (of_nat (decnum (''0'' @ ds)) / 10 ^ length ds)"
    using parseFloat_digits_point [of "''0''" ds] assms by simp
  moreover have "decnum (''0'' @ ds) = decnum ds"
    by (simp add: decnum_append) (simp add: decnum_def)
  moreover have "(of_nat (decnum ds) :: rat) \<le> 10 ^ length ds"
    using decnum_less [OF assms] by (metis of_nat_le_iff of_nat_numeral of_nat_power less_imp_le)
  then have "(of_nat (decnum ds) :: rat) / 10 ^ length ds \<le> 1"
    by (simp add: divide_le_eq_1)
  moreover have "(0::rat) \<le> of_nat (decnum ds) / 10 ^ length ds"
    by simp
  ultimately show ?thesis
    using rnd_between [of 0 1 "of_nat (decnum ds) / 10 ^ length ds"] is_double_int [of 1]
    by simp
qed

lemma toFixed_parseFloat:
  assumes "0 \<le> y" "0 \<le> p" "p \<le> 100"
  shows "\<exists>fixed. toFixed (Finite y) p = Inr fixed \<and>
     parseFloat fixed = rnd (of_nat (nat \<lfloor>y * 10 ^ nat p + 1 / 2\<rfloor>) / 10 ^ nat p)"
proof -
  define n where "n = nat \<lfloor>y * 10 ^ nat p + 1 / 2\<rfloor>"
  define m where "m = decimal n"
  define m' where "m' = replicate (nat p + 1 - length m) (CHR ''0'') @ m"
  define k where "k = length m' - nat p"
  have m: "m \<noteq> []" "list_all is_digit m" "decnum m = n"
    by (simp_all add: m_def decimal_digits decnum_decimal)
  have m': "list_all is_digit m'" "decnum m' = n" "nat p + 1 \<le> length m'"
    using m by (auto simp: m'_def decnum_append list_all_iff)
  have fixed: "toFixed (Finite y) p =
      Inr (if p = 0 then m' else take k m' @ ''.'' @ drop k m')"
    using assms by (simp add: toFixed_def Let_def n_def m_def m'_def k_def)
  show ?thesis
  proof (cases "p = 0")
    case True
    then have "m' = m"
      using m(1) by (cases m) (simp_all add: m'_def)
    with True m fixed show ?thesis
      by (simp add: parseFloat_digits n_def)
  next
    case False
    have k: "0 < k" "k \<le> length m'" "length m' - k = nat p"
      using m'(3) by (simp_all add: k_def)
    have A: "take k m' \<noteq> []" "list_all is_digit (take k m')"
      using k m'(1,3) by (auto simp: list_all_iff dest: in_set_takeD)
    have B: "list_all is_digit (drop k m')" "length (drop k m') = nat p"
      using k m'(1) by (auto simp: list_all_iff dest: in_set_dropD)
    have "parseFloat (take k m' @ CHR ''.'' # drop k m') =
        rnd (of_nat (decnum (take k m' @ drop k m')) / 10 ^ length (drop k m'))"
      using A B(1) by (rule parseFloat_digits_point)
    then have "parseFloat (take k m' @ ''.'' @ drop k m') = rnd (of_nat n / 10 ^ nat p)"
      by (simp add: m'(2) k(3))
    with False fixed show ?thesis
      by (simp add: n_def)
  qed
qed

lemma generateFloats_range_error:
  "p < 0 \<or> 100 < p \<Longrightarrow> generateFloats c s n p = Inl RangeError"
  by (auto simp: generateFloats_def toFixed_def Let_def)

lemma generateFloats_unit:
  assumes "0 \<le> p" "p \<le> 100"
  shows "\<exists>v. generateFloats c s n p = Inr (Finite v) \<and> 0 \<le> v \<and> v \<le> 1 \<and>
          (p = 0 \<longrightarrow> v = 0 \<or> v = 1)"
proof -
  obtain y where y: "parseFloat (''0.'' @ join_bytes (byteGenerator c s n)) = Finite y"
      "0 \<le> y" "y \<le> 1"
    using parseFloat_fraction [OF join_bytes_digits] by blast
  define k where "k = nat \<lfloor>y * 10 ^ nat p + 1 / 2\<rfloor>"
  obtain fixed where fixed: "toFixed (Finite y) p = Inr fixed"
      "parseFloat fixed = rnd (of_nat k / 10 ^ nat p)"
    using toFixed_parseFloat [OF y(2) assms] unfolding k_def by blast
  have gen: "generateFloats c s n p = Inr (rnd (of_nat k / 10 ^ nat p))"
    using y(1) fixed by (simp add: generateFloats_def Let_def)
  have "y * 10 ^ nat p + 1 / 2 \<le> 10 ^ nat p + 1 / 2"
    using y(3) by (simp add: mult_left_le_one_le)
  then have "\<lfloor>y * 10 ^ nat p + 1 / 2\<rfloor> \<le> \<lfloor>(10 ^ nat p + 1 / 2 :: rat)\<rfloor>"
    by (rule floor_mono)
  also have "(10 ^ nat p + 1 / 2 :: rat) = of_int (10 ^ nat p) + 1 / 2"
    by simp
  also have "\<lfloor>of_int (10 ^ nat p) + (1 / 2 :: rat)\<rfloor> = 10 ^ nat p"
    by (rule floor_unique) simp_all
  finally have kle: "k \<le> 10 ^ nat p"
    by (simp add: k_def nat_le_iff)
  then have "(of_nat k :: rat) \<le> 10 ^ nat p"
    by (metis of_nat_le_iff of_nat_numeral of_nat_power)
  then have up: "(of_nat k :: rat) / 10 ^ nat p \<le> 1"
    by (simp add: divide_le_eq_1)
  have low: "(0::rat) \<le> of_nat k / 10 ^ nat p"
    by simp
  obtain v where v: "rnd (of_nat k / 10 ^ nat p) = Finite v" "0 \<le> v" "v \<le> 1"
    using rnd_between [of 0 1 "of_nat k / 10 ^ nat p"] is_double_int [of 1] low up
    by auto
  have "v = 0 \<or> v = 1" if "p = 0"
  proof -
    from that kle have "k = 0 \<or> k = 1"
      by auto
    with that v(1) rnd_int [of 0] rnd_int [of 1] show ?thesis
      by auto
  qed
  with gen v show ?thesis
    by auto
qed

section \<open>A digest that rounds to 1\<close>

text \<open>
  The SHA-512 digest of \<open>ab17\<close>, the combination of client seed \<open>a\<close>, server seed
  \<open>b\<close> and nonce 17, computed step by step: the padded block, its message schedule,
  the eighty rounds, and the digest in hex.  Its first byte is \<open>0x61\<close>, that is 97.
\<close>

lemma replicate_numeral:
  "replicate (numeral k) x = x # replicate (pred_numeral k) x"
  by (simp add: numeral_eq_Suc)

lemma utf8_ab17: "utf8 ''ab17'' = [97, 98, 49, 55]"
  by (simp add: utf8_def)

lemma pad_ab17:
  "pad [97, 98, 49, 55] =
     [97, 98, 49, 55, 128, 0, 0, 0, 0, 0, 0, 0, 0, 0, 0, 0, 0, 0, 0, 0, 0, 0, 0, 0, 0, 0, 0, 0, 0, 0, 0, 0, 0, 0, 0, 0, 0, 0, 0, 0, 0, 0, 0, 0, 0, 0, 0, 0, 0, 0, 0, 0, 0, 0, 0, 0, 0, 0, 0, 0, 0, 0, 0, 0, 0, 0, 0, 0, 0, 0, 0, 0, 0, 0, 0, 0, 0, 0, 0, 0, 0, 0, 0, 0, 0, 0, 0, 0, 0, 0, 0, 0, 0, 0, 0, 0, 0, 0, 0, 0, 0, 0, 0, 0, 0, 0, 0, 0, 0, 0, 0, 0, 0, 0, 0, 0, 0, 0, 0, 0, 0, 0, 0, 0, 0, 0, 0, 32]"
  by (simp add: pad_def replicate_numeral upt_rec_numeral upt_conv_Cons)

lemma block_ab17:
  "map (map be64 \<circ> chunks 8) (chunks 128 (pad [97, 98, 49, 55])) =
     [[7017225283837100032, 0, 0, 0, 0, 0, 0, 0, 0, 0, 0, 0, 0, 0, 0, 32]]"
  by (simp add: pad_ab17 be64_def)

lemma expand_window:
  "expand (Suc n) (w1 # w2 # w3 # w4 # w5 # w6 # w7 # w8 # w9 # w10 # w11 # w12 # w13 # w14 # w15 # w16 # ws) =
     expand n ((ssig1 w2 + w7 + ssig0 w15 + w16) # w1 # w2 # w3 # w4 # w5 # w6 # w7 # w8 # w9 # w10 # w11 # w12 # w13 # w14 # w15 # w16 # ws)"
  by simp

lemma expand_add: "expand (m + n) ws = expand n (expand m ws)"
  by (induction m arbitrary: ws) simp_all

lemma expand_64:
  "expand 64 ws =
     expand 8 (expand 8 (expand 8 (expand 8 (expand 8 (expand 8 (expand 8 (expand 8 ws)))))))"
  by (simp flip: expand_add)

lemma eight_Suc: "8 = Suc (Suc (Suc (Suc (Suc (Suc (Suc (Suc 0)))))))"
  by simp

lemma words_ab17_1:
  "ssig1 0 + 0 + ssig0 0 + 7017225283837100032 = 7017225283837100032"
  "ssig1 32 + 0 + ssig0 0 + 0 = 1125899906842880"
  "ssig1 7017225283837100032 + 0 + ssig0 0 + 0 = 762248893913559043"
  "ssig1 1125899906842880 + 0 + ssig0 0 + 0 = 17594333530116"
  "ssig1 762248893913559043 + 0 + ssig0 0 + 0 = 9982892417415481564"
  "ssig1 17594333530116 + 0 + ssig0 0 + 0 = 72057886095724544"
  "ssig1 9982892417415481564 + 32 + ssig0 0 + 0 = 16673282562354827960"
  "ssig1 72057886095724544 + 7017225283837100032 + ssig0 0 + 0 = 7162468575407112512"
  by (simp_all add: ssig0_def ssig1_def rotr_def)

lemma schedule_ab17_1:
  "expand 8 (32 # 0 # 0 # 0 # 0 # 0 # 0 # 0 # 0 # 0 # 0 # 0 # 0 # 0 # 0 # 7017225283837100032 # ws) =
     7162468575407112512 # 16673282562354827960 # 72057886095724544 # 9982892417415481564 # 17594333530116 # 762248893913559043 # 1125899906842880 # 7017225283837100032 # 32 # 0 # 0 # 0 # 0 # 0 # 0 # 0 # 0 # 0 # 0 # 0 # 0 # 0 # 0 # 7017225283837100032 # ws"
  by (simp only: eight_Suc expand_window expand.simps(1) words_ab17_1)

lemma words_ab17_2:
  "ssig1 16673282562354827960 + 1125899906842880 + ssig0 0 + 0 = 14039303620629442966"
  "ssig1 7162468575407112512 + 762248893913559043 + ssig0 0 + 0 = 7289105379787415562"
  "ssig1 14039303620629442966 + 17594333530116 + ssig0 0 + 0 = 3716767978348621411"
  "ssig1 7289105379787415562 + 9982892417415481564 + ssig0 0 + 0 = 8601757404684740636"
  "ssig1 3716767978348621411 + 72057886095724544 + ssig0 0 + 0 = 1920453772700599648"
  "ssig1 8601757404684740636 + 16673282562354827960 + ssig0 0 + 0 = 7891921829410830401"
  "ssig1 1920453772700599648 + 7162468575407112512 + ssig0 32 + 0 = 5860941885012224393"
  "ssig1 7891921829410830401 + 14039303620629442966 + ssig0 7017225283837100032 + 32 = 11924462024097714437"
  by (simp_all add: ssig0_def ssig1_def rotr_def)

lemma schedule_ab17_2:
  "expand 8 (7162468575407112512 # 16673282562354827960 # 72057886095724544 # 9982892417415481564 # 17594333530116 # 762248893913559043 # 1125899906842880 # 7017225283837100032 # 32 # 0 # 0 # 0 # 0 # 0 # 0 # 0 # ws) =
     11924462024097714437 # 5860941885012224393 # 7891921829410830401 # 1920453772700599648 # 8601757404684740636 # 3716767978348621411 # 7289105379787415562 # 14039303620629442966 # 7162468575407112512 # 16673282562354827960 # 72057886095724544 # 9982892417415481564 # 17594333530116 # 762248893913559043 # 1125899906842880 # 7017225283837100032 # 32 # 0 # 0 # 0 # 0 # 0 # 0 # 0 # ws"
  by (simp only: eight_Suc expand_window expand.simps(1) words_ab17_2)

lemma words_ab17_3:
  "ssig1 5860941885012224393 + 7289105379787415562 + ssig0 1125899906842880 + 7017225283837100032 = 16524241779062533972"
  "ssig1 11924462024097714437 + 3716767978348621411 + ssig0 762248893913559043 + 1125899906842880 = 3261507353410251914"
  "ssig1 16524241779062533972 + 8601757404684740636 + ssig0 17594333530116 + 762248893913559043 = 13467051818750799141"
  "ssig1 3261507353410251914 + 1920453772700599648 + ssig0 9982892417415481564 + 17594333530116 = 5962600688154560324"
  "ssig1 13467051818750799141 + 7891921829410830401 + ssig0 72057886095724544 + 9982892417415481564 = 12753807332470607905"
  "ssig1 5962600688154560324 + 5860941885012224393 + ssig0 16673282562354827960 + 72057886095724544 = 668662112584595989"
  "ssig1 12753807332470607905 + 11924462024097714437 + ssig0 7162468575407112512 + 16673282562354827960 = 6712925329138529496"
  "ssig1 668662112584595989 + 16524241779062533972 + ssig0 14039303620629442966 + 7162468575407112512 = 3765293709515582168"
  by (simp_all add: ssig0_def ssig1_def rotr_def)

lemma schedule_ab17_3:
  "expand 8 (11924462024097714437 # 5860941885012224393 # 7891921829410830401 # 1920453772700599648 # 8601757404684740636 # 3716767978348621411 # 7289105379787415562 # 14039303620629442966 # 7162468575407112512 # 16673282562354827960 # 72057886095724544 # 9982892417415481564 # 17594333530116 # 762248893913559043 # 1125899906842880 # 7017225283837100032 # ws) =
     3765293709515582168 # 6712925329138529496 # 668662112584595989 # 12753807332470607905 # 5962600688154560324 # 13467051818750799141 # 3261507353410251914 # 16524241779062533972 # 11924462024097714437 # 5860941885012224393 # 7891921829410830401 # 1920453772700599648 # 8601757404684740636 # 3716767978348621411 # 7289105379787415562 # 14039303620629442966 # 7162468575407112512 # 16673282562354827960 # 72057886095724544 # 9982892417415481564 # 17594333530116 # 762248893913559043 # 1125899906842880 # 7017225283837100032 # ws"
  by (simp only: eight_Suc expand_window expand.simps(1) words_ab17_3)

lemma words_ab17_4:
  "ssig1 6712925329138529496 + 3261507353410251914 + ssig0 7289105379787415562 + 14039303620629442966 = 6267824593711967350"
  "ssig1 3765293709515582168 + 13467051818750799141 + ssig0 3716767978348621411 + 7289105379787415562 = 14568505631306535726"
  "ssig1 6267824593711967350 + 5962600688154560324 + ssig0 8601757404684740636 + 3716767978348621411 = 5806724626763582387"
  "ssig1 14568505631306535726 + 12753807332470607905 + ssig0 1920453772700599648 + 8601757404684740636 = 9077974842557777199"
  "ssig1 5806724626763582387 + 668662112584595989 + ssig0 7891921829410830401 + 1920453772700599648 = 14986829814724632329"
  "ssig1 9077974842557777199 + 6712925329138529496 + ssig0 5860941885012224393 + 7891921829410830401 = 2490858939067901332"
  "ssig1 14986829814724632329 + 3765293709515582168 + ssig0 11924462024097714437 + 5860941885012224393 = 4245316568615742240"
  "ssig1 2490858939067901332 + 6267824593711967350 + ssig0 16524241779062533972 + 11924462024097714437 = 338252449132033846"
  by (simp_all add: ssig0_def ssig1_def rotr_def)

lemma schedule_ab17_4:
  "expand 8 (3765293709515582168 # 6712925329138529496 # 668662112584595989 # 12753807332470607905 # 5962600688154560324 # 13467051818750799141 # 3261507353410251914 # 16524241779062533972 # 11924462024097714437 # 5860941885012224393 # 7891921829410830401 # 1920453772700599648 # 8601757404684740636 # 3716767978348621411 # 7289105379787415562 # 14039303620629442966 # ws) =
     338252449132033846 # 4245316568615742240 # 2490858939067901332 # 14986829814724632329 # 9077974842557777199 # 5806724626763582387 # 14568505631306535726 # 6267824593711967350 # 3765293709515582168 # 6712925329138529496 # 668662112584595989 # 12753807332470607905 # 5962600688154560324 # 13467051818750799141 # 3261507353410251914 # 16524241779062533972 # 11924462024097714437 # 5860941885012224393 # 7891921829410830401 # 1920453772700599648 # 8601757404684740636 # 3716767978348621411 # 7289105379787415562 # 14039303620629442966 # ws"
  by (simp only: eight_Suc expand_window expand.simps(1) words_ab17_4)

lemma words_ab17_5:
  "ssig1 4245316568615742240 + 14568505631306535726 + ssig0 3261507353410251914 + 16524241779062533972 = 17812448119955735666"
  "ssig1 338252449132033846 + 5806724626763582387 + ssig0 13467051818750799141 + 3261507353410251914 = 14632174052155997331"
  "ssig1 17812448119955735666 + 9077974842557777199 + ssig0 5962600688154560324 + 13467051818750799141 = 4129564658991712006"
  "ssig1 14632174052155997331 + 14986829814724632329 + ssig0 12753807332470607905 + 5962600688154560324 = 4047268129831616847"
  "ssig1 4129564658991712006 + 2490858939067901332 + ssig0 668662112584595989 + 12753807332470607905 = 14394809499497852900"
  "ssig1 4047268129831616847 + 4245316568615742240 + ssig0 6712925329138529496 + 668662112584595989 = 7801632288175814717"
  "ssig1 14394809499497852900 + 338252449132033846 + ssig0 3765293709515582168 + 6712925329138529496 = 14203703279320399783"
  "ssig1 7801632288175814717 + 17812448119955735666 + ssig0 6267824593711967350 + 3765293709515582168 = 2705390586446509999"
  by (simp_all add: ssig0_def ssig1_def rotr_def)

lemma schedule_ab17_5:
  "expand 8 (338252449132033846 # 4245316568615742240 # 2490858939067901332 # 14986829814724632329 # 9077974842557777199 # 5806724626763582387 # 14568505631306535726 # 6267824593711967350 # 3765293709515582168 # 6712925329138529496 # 668662112584595989 # 12753807332470607905 # 5962600688154560324 # 13467051818750799141 # 3261507353410251914 # 16524241779062533972 # ws) =
     2705390586446509999 # 14203703279320399783 # 7801632288175814717 # 14394809499497852900 # 4047268129831616847 # 4129564658991712006 # 14632174052155997331 # 17812448119955735666 # 338252449132033846 # 4245316568615742240 # 2490858939067901332 # 14986829814724632329 # 9077974842557777199 # 5806724626763582387 # 14568505631306535726 # 6267824593711967350 # 3765293709515582168 # 6712925329138529496 # 668662112584595989 # 12753807332470607905 # 5962600688154560324 # 13467051818750799141 # 3261507353410251914 # 16524241779062533972 # ws"
  by (simp only: eight_Suc expand_window expand.simps(1) words_ab17_5)

lemma words_ab17_6:
  "ssig1 14203703279320399783 + 14632174052155997331 + ssig0 14568505631306535726 + 6267824593711967350 = 8097871286594914953"
  "ssig1 2705390586446509999 + 4129564658991712006 + ssig0 5806724626763582387 + 14568505631306535726 = 13938760183143907414"
  "ssig1 8097871286594914953 + 4047268129831616847 + ssig0 9077974842557777199 + 5806724626763582387 = 421106803318311941"
  "ssig1 13938760183143907414 + 14394809499497852900 + ssig0 14986829814724632329 + 9077974842557777199 = 430810555623674299"
  "ssig1 421106803318311941 + 7801632288175814717 + ssig0 2490858939067901332 + 14986829814724632329 = 15620534704365465211"
  "ssig1 430810555623674299 + 14203703279320399783 + ssig0 4245316568615742240 + 2490858939067901332 = 5971177745137107480"
  "ssig1 15620534704365465211 + 2705390586446509999 + ssig0 338252449132033846 + 4245316568615742240 = 18257895698824099229"
  "ssig1 5971177745137107480 + 8097871286594914953 + ssig0 17812448119955735666 + 338252449132033846 = 11924018782556428845"
  by (simp_all add: ssig0_def ssig1_def rotr_def)

lemma schedule_ab17_6:
  "expand 8 (2705390586446509999 # 14203703279320399783 # 7801632288175814717 # 14394809499497852900 # 4047268129831616847 # 4129564658991712006 # 14632174052155997331 # 17812448119955735666 # 338252449132033846 # 4245316568615742240 # 2490858939067901332 # 14986829814724632329 # 9077974842557777199 # 5806724626763582387 # 14568505631306535726 # 6267824593711967350 # ws) =
     11924018782556428845 # 18257895698824099229 # 5971177745137107480 # 15620534704365465211 # 430810555623674299 # 421106803318311941 # 13938760183143907414 # 8097871286594914953 # 2705390586446509999 # 14203703279320399783 # 7801632288175814717 # 14394809499497852900 # 4047268129831616847 # 4129564658991712006 # 14632174052155997331 # 17812448119955735666 # 338252449132033846 # 4245316568615742240 # 2490858939067901332 # 14986829814724632329 # 9077974842557777199 # 5806724626763582387 # 14568505631306535726 # 6267824593711967350 # ws"
  by (simp only: eight_Suc expand_window expand.simps(1) words_ab17_6)

lemma words_ab17_7:
  "ssig1 18257895698824099229 + 13938760183143907414 + ssig0 14632174052155997331 + 17812448119955735666 = 16630802674509216316"
  "ssig1 11924018782556428845 + 421106803318311941 + ssig0 4129564658991712006 + 14632174052155997331 = 11950555240970036880"
  "ssig1 16630802674509216316 + 430810555623674299 + ssig0 4047268129831616847 + 4129564658991712006 = 13647677843958251741"
  "ssig1 11950555240970036880 + 15620534704365465211 + ssig0 14394809499497852900 + 4047268129831616847 = 17302391459654190421"
  "ssig1 13647677843958251741 + 5971177745137107480 + ssig0 7801632288175814717 + 14394809499497852900 = 8653023486911297215"
  "ssig1 17302391459654190421 + 18257895698824099229 + ssig0 14203703279320399783 + 7801632288175814717 = 5332638441148185153"
  "ssig1 8653023486911297215 + 11924018782556428845 + ssig0 2705390586446509999 + 14203703279320399783 = 2296118399944705170"
  "ssig1 5332638441148185153 + 16630802674509216316 + ssig0 8097871286594914953 + 2705390586446509999 = 5504149634957373546"
  by (simp_all add: ssig0_def ssig1_def rotr_def)

lemma schedule_ab17_7:
  "expand 8 (11924018782556428845 # 18257895698824099229 # 5971177745137107480 # 15620534704365465211 # 430810555623674299 # 421106803318311941 # 13938760183143907414 # 8097871286594914953 # 2705390586446509999 # 14203703279320399783 # 7801632288175814717 # 14394809499497852900 # 4047268129831616847 # 4129564658991712006 # 14632174052155997331 # 17812448119955735666 # ws) =
     5504149634957373546 # 2296118399944705170 # 5332638441148185153 # 8653023486911297215 # 17302391459654190421 # 13647677843958251741 # 11950555240970036880 # 16630802674509216316 # 11924018782556428845 # 18257895698824099229 # 5971177745137107480 # 15620534704365465211 # 430810555623674299 # 421106803318311941 # 13938760183143907414 # 8097871286594914953 # 2705390586446509999 # 14203703279320399783 # 7801632288175814717 # 14394809499497852900 # 4047268129831616847 # 4129564658991712006 # 14632174052155997331 # 17812448119955735666 # ws"
  by (simp only: eight_Suc expand_window expand.simps(1) words_ab17_7)

lemma words_ab17_8:
  "ssig1 2296118399944705170 + 11950555240970036880 + ssig0 13938760183143907414 + 8097871286594914953 = 2611140794065484768"
  "ssig1 5504149634957373546 + 13647677843958251741 + ssig0 421106803318311941 + 13938760183143907414 = 4819604296543198685"
  "ssig1 2611140794065484768 + 17302391459654190421 + ssig0 430810555623674299 + 421106803318311941 = 14840400776783477568"
  "ssig1 4819604296543198685 + 8653023486911297215 + ssig0 15620534704365465211 + 430810555623674299 = 1279152609063746618"
  "ssig1 14840400776783477568 + 5332638441148185153 + ssig0 5971177745137107480 + 15620534704365465211 = 4621977283739551038"
  "ssig1 1279152609063746618 + 2296118399944705170 + ssig0 18257895698824099229 + 5971177745137107480 = 11472489425413598514"
  "ssig1 4621977283739551038 + 5504149634957373546 + ssig0 11924018782556428845 + 18257895698824099229 = 6384313847567844608"
  "ssig1 11472489425413598514 + 2611140794065484768 + ssig0 16630802674509216316 + 11924018782556428845 = 11416050461561704291"
  by (simp_all add: ssig0_def ssig1_def rotr_def)

lemma schedule_ab17_8:
  "expand 8 (5504149634957373546 # 2296118399944705170 # 5332638441148185153 # 8653023486911297215 # 17302391459654190421 # 13647677843958251741 # 11950555240970036880 # 16630802674509216316 # 11924018782556428845 # 18257895698824099229 # 5971177745137107480 # 15620534704365465211 # 430810555623674299 # 421106803318311941 # 13938760183143907414 # 8097871286594914953 # ws) =
     11416050461561704291 # 6384313847567844608 # 11472489425413598514 # 4621977283739551038 # 1279152609063746618 # 14840400776783477568 # 4819604296543198685 # 2611140794065484768 # 5504149634957373546 # 2296118399944705170 # 5332638441148185153 # 8653023486911297215 # 17302391459654190421 # 13647677843958251741 # 11950555240970036880 # 16630802674509216316 # 11924018782556428845 # 18257895698824099229 # 5971177745137107480 # 15620534704365465211 # 430810555623674299 # 421106803318311941 # 13938760183143907414 # 8097871286594914953 # ws"
  by (simp only: eight_Suc expand_window expand.simps(1) words_ab17_8)

lemma schedule_ab17:
  "expand 64 [32, 0, 0, 0, 0, 0, 0, 0, 0, 0, 0, 0, 0, 0, 0, 7017225283837100032] =
     [11416050461561704291, 6384313847567844608, 11472489425413598514, 4621977283739551038, 1279152609063746618, 14840400776783477568, 4819604296543198685, 2611140794065484768, 5504149634957373546, 2296118399944705170, 5332638441148185153, 8653023486911297215, 17302391459654190421, 13647677843958251741, 11950555240970036880, 16630802674509216316, 11924018782556428845, 18257895698824099229, 5971177745137107480, 15620534704365465211, 430810555623674299, 421106803318311941, 13938760183143907414, 8097871286594914953, 2705390586446509999, 14203703279320399783, 7801632288175814717, 14394809499497852900, 4047268129831616847, 4129564658991712006, 14632174052155997331, 17812448119955735666, 338252449132033846, 4245316568615742240, 2490858939067901332, 14986829814724632329, 9077974842557777199, 5806724626763582387, 14568505631306535726, 6267824593711967350, 3765293709515582168, 6712925329138529496, 668662112584595989, 12753807332470607905, 5962600688154560324, 13467051818750799141, 3261507353410251914, 16524241779062533972, 11924462024097714437, 5860941885012224393, 7891921829410830401, 1920453772700599648, 8601757404684740636, 3716767978348621411, 7289105379787415562, 14039303620629442966, 7162468575407112512, 16673282562354827960, 72057886095724544, 9982892417415481564, 17594333530116, 762248893913559043, 1125899906842880, 7017225283837100032, 32, 0, 0, 0, 0, 0, 0, 0, 0, 0, 0, 0, 0, 0, 0, 7017225283837100032]"
  by (simp only: expand_64 schedule_ab17_1 schedule_ab17_2 schedule_ab17_3 schedule_ab17_4 schedule_ab17_5 schedule_ab17_6 schedule_ab17_7 schedule_ab17_8)

lemma rounds_ab17_1:
  "step [7640891576956012808, 13503953896175478587, 4354685564936845355, 11912009170470909681, 5840696475078001361, 11170449401992604703, 2270897969802886507, 6620516959819538809] (4794697086780616226, 7017225283837100032) =
     [17775598260128112117, 7640891576956012808, 13503953896175478587, 4354685564936845355, 6398154833063649169, 5840696475078001361, 11170449401992604703, 2270897969802886507]"
  "step [17775598260128112117, 7640891576956012808, 13503953896175478587, 4354685564936845355, 6398154833063649169, 5840696475078001361, 11170449401992604703, 2270897969802886507] (8158064640168781261, 0) =
     [5395787629295125333, 17775598260128112117, 7640891576956012808, 13503953896175478587, 7824410298658189088, 6398154833063649169, 5840696475078001361, 11170449401992604703]"
  "step [5395787629295125333, 17775598260128112117, 7640891576956012808, 13503953896175478587, 7824410298658189088, 6398154833063649169, 5840696475078001361, 11170449401992604703] (13096744586834688815, 0) =
     [367284399926551596, 5395787629295125333, 17775598260128112117, 7640891576956012808, 9369886714375526071, 7824410298658189088, 6398154833063649169, 5840696475078001361]"
  "step [367284399926551596, 5395787629295125333, 17775598260128112117, 7640891576956012808, 9369886714375526071, 7824410298658189088, 6398154833063649169, 5840696475078001361] (16840607885511220156, 0) =
     [8352235439029143152, 367284399926551596, 5395787629295125333, 17775598260128112117, 2573464499738744315, 9369886714375526071, 7824410298658189088, 6398154833063649169]"
  "step [8352235439029143152, 367284399926551596, 5395787629295125333, 17775598260128112117, 2573464499738744315, 9369886714375526071, 7824410298658189088, 6398154833063649169] (4131703408338449720, 0) =
     [3684201463271414378, 8352235439029143152, 367284399926551596, 5395787629295125333, 17452461941887002515, 2573464499738744315, 9369886714375526071, 7824410298658189088]"
  "step [3684201463271414378, 8352235439029143152, 367284399926551596, 5395787629295125333, 17452461941887002515, 2573464499738744315, 9369886714375526071, 7824410298658189088] (6480981068601479193, 0) =
     [7526855770052709569, 3684201463271414378, 8352235439029143152, 367284399926551596, 2714370332865161424, 17452461941887002515, 2573464499738744315, 9369886714375526071]"
  "step [7526855770052709569, 3684201463271414378, 8352235439029143152, 367284399926551596, 2714370332865161424, 17452461941887002515, 2573464499738744315, 9369886714375526071] (10538285296894168987, 0) =
     [10007501219714285044, 7526855770052709569, 3684201463271414378, 8352235439029143152, 9964118368061334912, 2714370332865161424, 17452461941887002515, 2573464499738744315]"
  "step [10007501219714285044, 7526855770052709569, 3684201463271414378, 8352235439029143152, 9964118368061334912, 2714370332865161424, 17452461941887002515, 2573464499738744315] (12329834152419229976, 0) =
     [11162381387066585429, 10007501219714285044, 7526855770052709569, 3684201463271414378, 4960582875654354499, 9964118368061334912, 2714370332865161424, 17452461941887002515]"
  by (simp_all add: step_def Let_def bsig0_def bsig1_def ch_def maj_def rotr_def)

lemma rounds_ab17_2:
  "step [11162381387066585429, 10007501219714285044, 7526855770052709569, 3684201463271414378, 4960582875654354499, 9964118368061334912, 2714370332865161424, 17452461941887002515] (15566598209576043074, 0) =
     [12930151135505232123, 11162381387066585429, 10007501219714285044, 7526855770052709569, 1027650605944682541, 4960582875654354499, 9964118368061334912, 2714370332865161424]"
  "step [12930151135505232123, 11162381387066585429, 10007501219714285044, 7526855770052709569, 1027650605944682541, 4960582875654354499, 9964118368061334912, 2714370332865161424] (1334009975649890238, 0) =
     [7237339185562459235, 12930151135505232123, 11162381387066585429, 10007501219714285044, 12656882139008588858, 1027650605944682541, 4960582875654354499, 9964118368061334912]"
  "step [7237339185562459235, 12930151135505232123, 11162381387066585429, 10007501219714285044, 12656882139008588858, 1027650605944682541, 4960582875654354499, 9964118368061334912] (2608012711638119052, 0) =
     [11233102049816744645, 7237339185562459235, 12930151135505232123, 11162381387066585429, 11537264953260419586, 12656882139008588858, 1027650605944682541, 4960582875654354499]"
  "step [11233102049816744645, 7237339185562459235, 12930151135505232123, 11162381387066585429, 11537264953260419586, 12656882139008588858, 1027650605944682541, 4960582875654354499] (6128411473006802146, 0) =
     [52038814965410111, 11233102049816744645, 7237339185562459235, 12930151135505232123, 10454722874517026088, 11537264953260419586, 12656882139008588858, 1027650605944682541]"
  "step [52038814965410111, 11233102049816744645, 7237339185562459235, 12930151135505232123, 10454722874517026088, 11537264953260419586, 12656882139008588858, 1027650605944682541] (8268148722764581231, 0) =
     [14525432972609899409, 52038814965410111, 11233102049816744645, 7237339185562459235, 4975197572754016822, 10454722874517026088, 11537264953260419586, 12656882139008588858]"
  "step [14525432972609899409, 52038814965410111, 11233102049816744645, 7237339185562459235, 4975197572754016822, 10454722874517026088, 11537264953260419586, 12656882139008588858] (9286055187155687089, 0) =
     [16828447347374441159, 14525432972609899409, 52038814965410111, 11233102049816744645, 6254667158493434461, 4975197572754016822, 10454722874517026088, 11537264953260419586]"
  "step [16828447347374441159, 14525432972609899409, 52038814965410111, 11233102049816744645, 6254667158493434461, 4975197572754016822, 10454722874517026088, 11537264953260419586] (11230858885718282805, 0) =
     [2748481395265982396, 16828447347374441159, 14525432972609899409, 52038814965410111, 2073743453396455248, 6254667158493434461, 4975197572754016822, 10454722874517026088]"
  "step [2748481395265982396, 16828447347374441159, 14525432972609899409, 52038814965410111, 2073743453396455248, 6254667158493434461, 4975197572754016822, 10454722874517026088] (13951009754708518548, 32) =
     [13778493453379050774, 2748481395265982396, 16828447347374441159, 14525432972609899409, 166523010438332810, 2073743453396455248, 6254667158493434461, 4975197572754016822]"
  by (simp_all add: step_def Let_def bsig0_def bsig1_def ch_def maj_def rotr_def)

lemma rounds_ab17_3:
  "step [13778493453379050774, 2748481395265982396, 16828447347374441159, 14525432972609899409, 166523010438332810, 2073743453396455248, 6254667158493434461, 4975197572754016822] (16472876342353939154, 7017225283837100032) =
     [13496407935645766316, 13778493453379050774, 2748481395265982396, 16828447347374441159, 14768800709809229461, 166523010438332810, 2073743453396455248, 6254667158493434461]"
  "step [13496407935645766316, 13778493453379050774, 2748481395265982396, 16828447347374441159, 14768800709809229461, 166523010438332810, 2073743453396455248, 6254667158493434461] (17275323862435702243, 1125899906842880) =
     [4449497938825220617, 13496407935645766316, 13778493453379050774, 2748481395265982396, 6247707611399659167, 14768800709809229461, 166523010438332810, 2073743453396455248]"
  "step [4449497938825220617, 13496407935645766316, 13778493453379050774, 2748481395265982396, 6247707611399659167, 14768800709809229461, 166523010438332810, 2073743453396455248] (1135362057144423861, 762248893913559043) =
     [5552288224290260313, 4449497938825220617, 13496407935645766316, 13778493453379050774, 7195052345744711955, 6247707611399659167, 14768800709809229461, 166523010438332810]"
  "step [5552288224290260313, 4449497938825220617, 13496407935645766316, 13778493453379050774, 7195052345744711955, 6247707611399659167, 14768800709809229461, 166523010438332810] (2597628984639134821, 17594333530116) =
     [11038131399828898472, 5552288224290260313, 4449497938825220617, 13496407935645766316, 1636239331182825686, 7195052345744711955, 6247707611399659167, 14768800709809229461]"
  "step [11038131399828898472, 5552288224290260313, 4449497938825220617, 13496407935645766316, 1636239331182825686, 7195052345744711955, 6247707611399659167, 14768800709809229461] (3308224258029322869, 9982892417415481564) =
     [2089028041770614250, 11038131399828898472, 5552288224290260313, 4449497938825220617, 8828630587667309632, 1636239331182825686, 7195052345744711955, 6247707611399659167]"
  "step [2089028041770614250, 11038131399828898472, 5552288224290260313, 4449497938825220617, 8828630587667309632, 1636239331182825686, 7195052345744711955, 6247707611399659167] (5365058923640841347, 72057886095724544) =
     [5565082707409235966, 2089028041770614250, 11038131399828898472, 5552288224290260313, 7709188092641252274, 8828630587667309632, 1636239331182825686, 7195052345744711955]"
  "step [5565082707409235966, 2089028041770614250, 11038131399828898472, 5552288224290260313, 7709188092641252274, 8828630587667309632, 1636239331182825686, 7195052345744711955] (6679025012923562964, 16673282562354827960) =
     [9201389709214532327, 5565082707409235966, 2089028041770614250, 11038131399828898472, 7670418473472256909, 7709188092641252274, 8828630587667309632, 1636239331182825686]"
  "step [9201389709214532327, 5565082707409235966, 2089028041770614250, 11038131399828898472, 7670418473472256909, 7709188092641252274, 8828630587667309632, 1636239331182825686] (8573033837759648693, 7162468575407112512) =
     [17689547483212006976, 9201389709214532327, 5565082707409235966, 2089028041770614250, 15361150733735653360, 7670418473472256909, 7709188092641252274, 8828630587667309632]"
  by (simp_all add: step_def Let_def bsig0_def bsig1_def ch_def maj_def rotr_def)

lemma rounds_ab17_4:
  "step [17689547483212006976, 9201389709214532327, 5565082707409235966, 2089028041770614250, 15361150733735653360, 7670418473472256909, 7709188092641252274, 8828630587667309632] (10970295158949994411, 14039303620629442966) =
     [5879579765021173847, 17689547483212006976, 9201389709214532327, 5565082707409235966, 6628088415638455706, 15361150733735653360, 7670418473472256909, 7709188092641252274]"
  "step [5879579765021173847, 17689547483212006976, 9201389709214532327, 5565082707409235966, 6628088415638455706, 15361150733735653360, 7670418473472256909, 7709188092641252274] (12119686244451234320, 7289105379787415562) =
     [8526060172232512530, 5879579765021173847, 17689547483212006976, 9201389709214532327, 12090571145823533748, 6628088415638455706, 15361150733735653360, 7670418473472256909]"
  "step [8526060172232512530, 5879579765021173847, 17689547483212006976, 9201389709214532327, 12090571145823533748, 6628088415638455706, 15361150733735653360, 7670418473472256909] (12683024718118986047, 3716767978348621411) =
     [4378459621411071664, 8526060172232512530, 5879579765021173847, 17689547483212006976, 8730388214297149712, 12090571145823533748, 6628088415638455706, 15361150733735653360]"
  "step [4378459621411071664, 8526060172232512530, 5879579765021173847, 17689547483212006976, 8730388214297149712, 12090571145823533748, 6628088415638455706, 15361150733735653360] (13788192230050041572, 8601757404684740636) =
     [3135989976009668811, 4378459621411071664, 8526060172232512530, 5879579765021173847, 2513488609738660191, 8730388214297149712, 12090571145823533748, 6628088415638455706]"
  "step [3135989976009668811, 4378459621411071664, 8526060172232512530, 5879579765021173847, 2513488609738660191, 8730388214297149712, 12090571145823533748, 6628088415638455706] (14330467153632333762, 1920453772700599648) =
     [14400767126144729071, 3135989976009668811, 4378459621411071664, 8526060172232512530, 13729315637009085536, 2513488609738660191, 8730388214297149712, 12090571145823533748]"
  "step [14400767126144729071, 3135989976009668811, 4378459621411071664, 8526060172232512530, 13729315637009085536, 2513488609738660191, 8730388214297149712, 12090571145823533748] (15395433587784984357, 7891921829410830401) =
     [672284092719132152, 14400767126144729071, 3135989976009668811, 4378459621411071664, 16982268939156515949, 13729315637009085536, 2513488609738660191, 8730388214297149712]"
  "step [672284092719132152, 14400767126144729071, 3135989976009668811, 4378459621411071664, 16982268939156515949, 13729315637009085536, 2513488609738660191, 8730388214297149712] (489312712824947311, 5860941885012224393) =
     [11260135854605033004, 672284092719132152, 14400767126144729071, 3135989976009668811, 9088496384427632808, 16982268939156515949, 13729315637009085536, 2513488609738660191]"
  "step [11260135854605033004, 672284092719132152, 14400767126144729071, 3135989976009668811, 9088496384427632808, 16982268939156515949, 13729315637009085536, 2513488609738660191] (1452737877330783856, 11924462024097714437) =
     [452023686246685619, 11260135854605033004, 672284092719132152, 14400767126144729071, 13962378777337348242, 9088496384427632808, 16982268939156515949, 13729315637009085536]"
  by (simp_all add: step_def Let_def bsig0_def bsig1_def ch_def maj_def rotr_def)

lemma rounds_ab17_5:
  "step [452023686246685619, 11260135854605033004, 672284092719132152, 14400767126144729071, 13962378777337348242, 9088496384427632808, 16982268939156515949, 13729315637009085536] (2861767655752347644, 16524241779062533972) =
     [425838537955419697, 452023686246685619, 11260135854605033004, 672284092719132152, 10254532497260749474, 13962378777337348242, 9088496384427632808, 16982268939156515949]"
  "step [425838537955419697, 452023686246685619, 11260135854605033004, 672284092719132152, 10254532497260749474, 13962378777337348242, 9088496384427632808, 16982268939156515949] (3322285676063803686, 3261507353410251914) =
     [15286704760346073606, 425838537955419697, 452023686246685619, 11260135854605033004, 18428066778582315481, 10254532497260749474, 13962378777337348242, 9088496384427632808]"
  "step [15286704760346073606, 425838537955419697, 452023686246685619, 11260135854605033004, 18428066778582315481, 10254532497260749474, 13962378777337348242, 9088496384427632808] (5560940570517711597, 13467051818750799141) =
     [12654561963647808783, 15286704760346073606, 425838537955419697, 452023686246685619, 5224202745804497315, 18428066778582315481, 10254532497260749474, 13962378777337348242]"
  "step [12654561963647808783, 15286704760346073606, 425838537955419697, 452023686246685619, 5224202745804497315, 18428066778582315481, 10254532497260749474, 13962378777337348242] (5996557281743188959, 5962600688154560324) =
     [3682050719942145423, 12654561963647808783, 15286704760346073606, 425838537955419697, 1289698574492363928, 5224202745804497315, 18428066778582315481, 10254532497260749474]"
  "step [3682050719942145423, 12654561963647808783, 15286704760346073606, 425838537955419697, 1289698574492363928, 5224202745804497315, 18428066778582315481, 10254532497260749474] (7280758554555802590, 12753807332470607905) =
     [11532108761335765082, 3682050719942145423, 12654561963647808783, 15286704760346073606, 7257309574257708895, 1289698574492363928, 5224202745804497315, 18428066778582315481]"
  "step [11532108761335765082, 3682050719942145423, 12654561963647808783, 15286704760346073606, 7257309574257708895, 1289698574492363928, 5224202745804497315, 18428066778582315481] (8532644243296465576, 668662112584595989) =
     [5626384353752903496, 11532108761335765082, 3682050719942145423, 12654561963647808783, 14933623639285079005, 7257309574257708895, 1289698574492363928, 5224202745804497315]"
  "step [5626384353752903496, 11532108761335765082, 3682050719942145423, 12654561963647808783, 14933623639285079005, 7257309574257708895, 1289698574492363928, 5224202745804497315] (9350256976987008742, 6712925329138529496) =
     [17491331495177485795, 5626384353752903496, 11532108761335765082, 3682050719942145423, 3423692315818833763, 14933623639285079005, 7257309574257708895, 1289698574492363928]"
  "step [17491331495177485795, 5626384353752903496, 11532108761335765082, 3682050719942145423, 3423692315818833763, 14933623639285079005, 7257309574257708895, 1289698574492363928] (10552545826968843579, 3765293709515582168) =
     [15176024206328663876, 17491331495177485795, 5626384353752903496, 11532108761335765082, 974185635562227065, 3423692315818833763, 14933623639285079005, 7257309574257708895]"
  by (simp_all add: step_def Let_def bsig0_def bsig1_def ch_def maj_def rotr_def)

lemma rounds_ab17_6:
  "step [15176024206328663876, 17491331495177485795, 5626384353752903496, 11532108761335765082, 974185635562227065, 3423692315818833763, 14933623639285079005, 7257309574257708895] (11727347734174303076, 6267824593711967350) =
     [6263177361083865403, 15176024206328663876, 17491331495177485795, 5626384353752903496, 17377995807589637328, 974185635562227065, 3423692315818833763, 14933623639285079005]"
  "step [6263177361083865403, 15176024206328663876, 17491331495177485795, 5626384353752903496, 17377995807589637328, 974185635562227065, 3423692315818833763, 14933623639285079005] (12113106623233404929, 14568505631306535726) =
     [15567674105229064720, 6263177361083865403, 15176024206328663876, 17491331495177485795, 13398081926123822804, 17377995807589637328, 974185635562227065, 3423692315818833763]"
  "step [15567674105229064720, 6263177361083865403, 15176024206328663876, 17491331495177485795, 13398081926123822804, 17377995807589637328, 974185635562227065, 3423692315818833763] (14000437183269869457, 5806724626763582387) =
     [12877901087857096346, 15567674105229064720, 6263177361083865403, 15176024206328663876, 7636448587596988689, 13398081926123822804, 17377995807589637328, 974185635562227065]"
  "step [12877901087857096346, 15567674105229064720, 6263177361083865403, 15176024206328663876, 7636448587596988689, 13398081926123822804, 17377995807589637328, 974185635562227065] (14369950271660146224, 9077974842557777199) =
     [4543877732245093851, 12877901087857096346, 15567674105229064720, 6263177361083865403, 14367963193513194824, 7636448587596988689, 13398081926123822804, 17377995807589637328]"
  "step [4543877732245093851, 12877901087857096346, 15567674105229064720, 6263177361083865403, 14367963193513194824, 7636448587596988689, 13398081926123822804, 17377995807589637328] (15101387698204529176, 14986829814724632329) =
     [13051318481553139525, 4543877732245093851, 12877901087857096346, 15567674105229064720, 17215681674747063896, 14367963193513194824, 7636448587596988689, 13398081926123822804]"
  "step [13051318481553139525, 4543877732245093851, 12877901087857096346, 15567674105229064720, 17215681674747063896, 14367963193513194824, 7636448587596988689, 13398081926123822804] (15463397548674623760, 2490858939067901332) =
     [1838010466185856584, 13051318481553139525, 4543877732245093851, 12877901087857096346, 7128351131721531170, 17215681674747063896, 14367963193513194824, 7636448587596988689]"
  "step [1838010466185856584, 13051318481553139525, 4543877732245093851, 12877901087857096346, 7128351131721531170, 17215681674747063896, 14367963193513194824, 7636448587596988689] (17586052441742319658, 4245316568615742240) =
     [15443659478190968531, 1838010466185856584, 13051318481553139525, 4543877732245093851, 18153144942170253710, 7128351131721531170, 17215681674747063896, 14367963193513194824]"
  "step [15443659478190968531, 1838010466185856584, 13051318481553139525, 4543877732245093851, 18153144942170253710, 7128351131721531170, 17215681674747063896, 14367963193513194824] (1182934255886127544, 338252449132033846) =
     [17863192972927172524, 15443659478190968531, 1838010466185856584, 13051318481553139525, 11620677645146848110, 18153144942170253710, 7128351131721531170, 17215681674747063896]"
  by (simp_all add: step_def Let_def bsig0_def bsig1_def ch_def maj_def rotr_def)

lemma rounds_ab17_7:
  "step [17863192972927172524, 15443659478190968531, 1838010466185856584, 13051318481553139525, 11620677645146848110, 18153144942170253710, 7128351131721531170, 17215681674747063896] (1847814050463011016, 17812448119955735666) =
     [10115846905265807952, 17863192972927172524, 15443659478190968531, 1838010466185856584, 2690686320541642557, 11620677645146848110, 18153144942170253710, 7128351131721531170]"
  "step [10115846905265807952, 17863192972927172524, 15443659478190968531, 1838010466185856584, 2690686320541642557, 11620677645146848110, 18153144942170253710, 7128351131721531170] (2177327727835720531, 14632174052155997331) =
     [7740815350370701424, 10115846905265807952, 17863192972927172524, 15443659478190968531, 8101521096604101992, 2690686320541642557, 11620677645146848110, 18153144942170253710]"
  "step [7740815350370701424, 10115846905265807952, 17863192972927172524, 15443659478190968531, 8101521096604101992, 2690686320541642557, 11620677645146848110, 18153144942170253710] (2830643537854262169, 4129564658991712006) =
     [17668158013889571768, 7740815350370701424, 10115846905265807952, 17863192972927172524, 17537735260243509107, 8101521096604101992, 2690686320541642557, 11620677645146848110]"
  "step [17668158013889571768, 7740815350370701424, 10115846905265807952, 17863192972927172524, 17537735260243509107, 8101521096604101992, 2690686320541642557, 11620677645146848110] (3796741975233480872, 4047268129831616847) =
     [605847546759243211, 17668158013889571768, 7740815350370701424, 10115846905265807952, 14914615469815163529, 17537735260243509107, 8101521096604101992, 2690686320541642557]"
  "step [605847546759243211, 17668158013889571768, 7740815350370701424, 10115846905265807952, 14914615469815163529, 17537735260243509107, 8101521096604101992, 2690686320541642557] (4115178125766777443, 14394809499497852900) =
     [8142711435786481621, 605847546759243211, 17668158013889571768, 7740815350370701424, 17605559398403749131, 14914615469815163529, 17537735260243509107, 8101521096604101992]"
  "step [8142711435786481621, 605847546759243211, 17668158013889571768, 7740815350370701424, 17605559398403749131, 14914615469815163529, 17537735260243509107, 8101521096604101992] (5681478168544905931, 7801632288175814717) =
     [6792449896063395247, 8142711435786481621, 605847546759243211, 17668158013889571768, 4940406001624016005, 17605559398403749131, 14914615469815163529, 17537735260243509107]"
  "step [6792449896063395247, 8142711435786481621, 605847546759243211, 17668158013889571768, 4940406001624016005, 17605559398403749131, 14914615469815163529, 17537735260243509107] (6601373596472566643, 14203703279320399783) =
     [4873859757256455466, 6792449896063395247, 8142711435786481621, 605847546759243211, 4132394903385456377, 4940406001624016005, 17605559398403749131, 14914615469815163529]"
  "step [4873859757256455466, 6792449896063395247, 8142711435786481621, 605847546759243211, 4132394903385456377, 4940406001624016005, 17605559398403749131, 14914615469815163529] (7507060721942968483, 2705390586446509999) =
     [9036454432639010453, 4873859757256455466, 6792449896063395247, 8142711435786481621, 11526572279146446587, 4132394903385456377, 4940406001624016005, 17605559398403749131]"
  by (simp_all add: step_def Let_def bsig0_def bsig1_def ch_def maj_def rotr_def)

lemma rounds_ab17_8:
  "step [9036454432639010453, 4873859757256455466, 6792449896063395247, 8142711435786481621, 11526572279146446587, 4132394903385456377, 4940406001624016005, 17605559398403749131] (8399075790359081724, 8097871286594914953) =
     [7534201684509940978, 9036454432639010453, 4873859757256455466, 6792449896063395247, 13024173501292487741, 11526572279146446587, 4132394903385456377, 4940406001624016005]"
  "step [7534201684509940978, 9036454432639010453, 4873859757256455466, 6792449896063395247, 13024173501292487741, 11526572279146446587, 4132394903385456377, 4940406001624016005] (8693463985226723168, 13938760183143907414) =
     [10941297809489512728, 7534201684509940978, 9036454432639010453, 4873859757256455466, 8590296669980587893, 13024173501292487741, 11526572279146446587, 4132394903385456377]"
  "step [10941297809489512728, 7534201684509940978, 9036454432639010453, 4873859757256455466, 8590296669980587893, 13024173501292487741, 11526572279146446587, 4132394903385456377] (9568029438360202098, 421106803318311941) =
     [6910752579171726344, 10941297809489512728, 7534201684509940978, 9036454432639010453, 14697336555389608172, 8590296669980587893, 13024173501292487741, 11526572279146446587]"
  "step [6910752579171726344, 10941297809489512728, 7534201684509940978, 9036454432639010453, 14697336555389608172, 8590296669980587893, 13024173501292487741, 11526572279146446587] (10144078919501101548, 430810555623674299) =
     [10187352829962894172, 6910752579171726344, 10941297809489512728, 7534201684509940978, 7921438288233606268, 14697336555389608172, 8590296669980587893, 13024173501292487741]"
  "step [10187352829962894172, 6910752579171726344, 10941297809489512728, 7534201684509940978, 7921438288233606268, 14697336555389608172, 8590296669980587893, 13024173501292487741] (10430055236837252648, 15620534704365465211) =
     [16444457163497265112, 10187352829962894172, 6910752579171726344, 10941297809489512728, 3175358077856965445, 7921438288233606268, 14697336555389608172, 8590296669980587893]"
  "step [16444457163497265112, 10187352829962894172, 6910752579171726344, 10941297809489512728, 3175358077856965445, 7921438288233606268, 14697336555389608172, 8590296669980587893] (11840083180663258601, 5971177745137107480) =
     [15298049907132143138, 16444457163497265112, 10187352829962894172, 6910752579171726344, 1111290663521799441, 3175358077856965445, 7921438288233606268, 14697336555389608172]"
  "step [15298049907132143138, 16444457163497265112, 10187352829962894172, 6910752579171726344, 1111290663521799441, 3175358077856965445, 7921438288233606268, 14697336555389608172] (13761210420658862357, 18257895698824099229) =
     [10720080575722660314, 15298049907132143138, 16444457163497265112, 10187352829962894172, 14986110808352830199, 1111290663521799441, 3175358077856965445, 7921438288233606268]"
  "step [10720080575722660314, 15298049907132143138, 16444457163497265112, 10187352829962894172, 14986110808352830199, 1111290663521799441, 3175358077856965445, 7921438288233606268] (14299343276471374635, 11924018782556428845) =
     [12867031621664501337, 10720080575722660314, 15298049907132143138, 16444457163497265112, 14877143744032259267, 14986110808352830199, 1111290663521799441, 3175358077856965445]"
  by (simp_all add: step_def Let_def bsig0_def bsig1_def ch_def maj_def rotr_def)

lemma rounds_ab17_9:
  "step [12867031621664501337, 10720080575722660314, 15298049907132143138, 16444457163497265112, 14877143744032259267, 14986110808352830199, 1111290663521799441, 3175358077856965445] (14566680578165727644, 16630802674509216316) =
     [7973722955504299849, 12867031621664501337, 10720080575722660314, 15298049907132143138, 4152277391080773606, 14877143744032259267, 14986110808352830199, 1111290663521799441]"
  "step [7973722955504299849, 12867031621664501337, 10720080575722660314, 15298049907132143138, 4152277391080773606, 14877143744032259267, 14986110808352830199, 1111290663521799441] (15097957966210449927, 11950555240970036880) =
     [10008848851064573267, 7973722955504299849, 12867031621664501337, 10720080575722660314, 6358157848037050773, 4152277391080773606, 14877143744032259267, 14986110808352830199]"
  "step [10008848851064573267, 7973722955504299849, 12867031621664501337, 10720080575722660314, 6358157848037050773, 4152277391080773606, 14877143744032259267, 14986110808352830199] (16922976911328602910, 13647677843958251741) =
     [12681703355379345827, 10008848851064573267, 7973722955504299849, 12867031621664501337, 17260425488564372031, 6358157848037050773, 4152277391080773606, 14877143744032259267]"
  "step [12681703355379345827, 10008848851064573267, 7973722955504299849, 12867031621664501337, 17260425488564372031, 6358157848037050773, 4152277391080773606, 14877143744032259267] (17689382322260857208, 17302391459654190421) =
     [10242453767206523940, 12681703355379345827, 10008848851064573267, 7973722955504299849, 1959110935770420217, 17260425488564372031, 6358157848037050773, 4152277391080773606]"
  "step [10242453767206523940, 12681703355379345827, 10008848851064573267, 7973722955504299849, 1959110935770420217, 17260425488564372031, 6358157848037050773, 4152277391080773606] (500013540394364858, 8653023486911297215) =
     [14138355766780252049, 10242453767206523940, 12681703355379345827, 10008848851064573267, 3128366241771237901, 1959110935770420217, 17260425488564372031, 6358157848037050773]"
  "step [14138355766780252049, 10242453767206523940, 12681703355379345827, 10008848851064573267, 3128366241771237901, 1959110935770420217, 17260425488564372031, 6358157848037050773] (748580250866718886, 5332638441148185153) =
     [818636540011605061, 14138355766780252049, 10242453767206523940, 12681703355379345827, 14811621220070816644, 3128366241771237901, 1959110935770420217, 17260425488564372031]"
  "step [818636540011605061, 14138355766780252049, 10242453767206523940, 12681703355379345827, 14811621220070816644, 3128366241771237901, 1959110935770420217, 17260425488564372031] (1242879168328830382, 2296118399944705170) =
     [7373878322629868351, 818636540011605061, 14138355766780252049, 10242453767206523940, 2291227219617505200, 14811621220070816644, 3128366241771237901, 1959110935770420217]"
  "step [7373878322629868351, 818636540011605061, 14138355766780252049, 10242453767206523940, 2291227219617505200, 14811621220070816644, 3128366241771237901, 1959110935770420217] (1977374033974150939, 5504149634957373546) =
     [6607066739087132300, 7373878322629868351, 818636540011605061, 14138355766780252049, 14547062516345937021, 2291227219617505200, 14811621220070816644, 3128366241771237901]"
  by (simp_all add: step_def Let_def bsig0_def bsig1_def ch_def maj_def rotr_def)

lemma rounds_ab17_10:
  "step [6607066739087132300, 7373878322629868351, 818636540011605061, 14138355766780252049, 14547062516345937021, 2291227219617505200, 14811621220070816644, 3128366241771237901] (2944078676154940804, 2611140794065484768) =
     [14988865377623086672, 6607066739087132300, 7373878322629868351, 818636540011605061, 15931081615599376312, 14547062516345937021, 2291227219617505200, 14811621220070816644]"
  "step [14988865377623086672, 6607066739087132300, 7373878322629868351, 818636540011605061, 15931081615599376312, 14547062516345937021, 2291227219617505200, 14811621220070816644] (3659926193048069267, 4819604296543198685) =
     [5858469017616960722, 14988865377623086672, 6607066739087132300, 7373878322629868351, 17057720338217160065, 15931081615599376312, 14547062516345937021, 2291227219617505200]"
  "step [5858469017616960722, 14988865377623086672, 6607066739087132300, 7373878322629868351, 17057720338217160065, 15931081615599376312, 14547062516345937021, 2291227219617505200] (4368137639120453308, 14840400776783477568) =
     [7502818369373123730, 5858469017616960722, 14988865377623086672, 6607066739087132300, 5020916174284273973, 17057720338217160065, 15931081615599376312, 14547062516345937021]"
  "step [7502818369373123730, 5858469017616960722, 14988865377623086672, 6607066739087132300, 5020916174284273973, 17057720338217160065, 15931081615599376312, 14547062516345937021] (4836135668995329356, 1279152609063746618) =
     [11864819656082156398, 7502818369373123730, 5858469017616960722, 14988865377623086672, 10808493796232063982, 5020916174284273973, 17057720338217160065, 15931081615599376312]"
  "step [11864819656082156398, 7502818369373123730, 5858469017616960722, 14988865377623086672, 10808493796232063982, 5020916174284273973, 17057720338217160065, 15931081615599376312] (5532061633213252278, 4621977283739551038) =
     [6221258716248424167, 11864819656082156398, 7502818369373123730, 5858469017616960722, 2752475667419479414, 10808493796232063982, 5020916174284273973, 17057720338217160065]"
  "step [6221258716248424167, 11864819656082156398, 7502818369373123730, 5858469017616960722, 2752475667419479414, 10808493796232063982, 5020916174284273973, 17057720338217160065] (6448918945643986474, 11472489425413598514) =
     [16940628403848165338, 6221258716248424167, 11864819656082156398, 7502818369373123730, 1917784667982732817, 2752475667419479414, 10808493796232063982, 5020916174284273973]"
  "step [16940628403848165338, 6221258716248424167, 11864819656082156398, 7502818369373123730, 1917784667982732817, 2752475667419479414, 10808493796232063982, 5020916174284273973] (6902733635092675308, 6384313847567844608) =
     [11305226279272163101, 16940628403848165338, 6221258716248424167, 11864819656082156398, 3329856561242822877, 1917784667982732817, 2752475667419479414, 10808493796232063982]"
  "step [11305226279272163101, 16940628403848165338, 6221258716248424167, 11864819656082156398, 3329856561242822877, 1917784667982732817, 2752475667419479414, 10808493796232063982] (7801388544844847127, 11416050461561704291) =
     [17839695515929620817, 11305226279272163101, 16940628403848165338, 6221258716248424167, 13106499742918505477, 3329856561242822877, 1917784667982732817, 2752475667419479414]"
  by (simp_all add: step_def Let_def bsig0_def bsig1_def ch_def maj_def rotr_def)

lemma fold_rounds_ab17:
  "foldl step H512 (zip K512 [7017225283837100032, 0, 0, 0, 0, 0, 0, 0, 0, 0, 0, 0, 0, 0, 0, 32, 7017225283837100032, 1125899906842880, 762248893913559043, 17594333530116, 9982892417415481564, 72057886095724544, 16673282562354827960, 7162468575407112512, 14039303620629442966, 7289105379787415562, 3716767978348621411, 8601757404684740636, 1920453772700599648, 7891921829410830401, 5860941885012224393, 11924462024097714437, 16524241779062533972, 3261507353410251914, 13467051818750799141, 5962600688154560324, 12753807332470607905, 668662112584595989, 6712925329138529496, 3765293709515582168, 6267824593711967350, 14568505631306535726, 5806724626763582387, 9077974842557777199, 14986829814724632329, 2490858939067901332, 4245316568615742240, 338252449132033846, 17812448119955735666, 14632174052155997331, 4129564658991712006, 4047268129831616847, 14394809499497852900, 7801632288175814717, 14203703279320399783, 2705390586446509999, 8097871286594914953, 13938760183143907414, 421106803318311941, 430810555623674299, 15620534704365465211, 5971177745137107480, 18257895698824099229, 11924018782556428845, 16630802674509216316, 11950555240970036880, 13647677843958251741, 17302391459654190421, 8653023486911297215, 5332638441148185153, 2296118399944705170, 5504149634957373546, 2611140794065484768, 4819604296543198685, 14840400776783477568, 1279152609063746618, 4621977283739551038, 11472489425413598514, 6384313847567844608, 11416050461561704291]) =
     [17839695515929620817, 11305226279272163101, 16940628403848165338, 6221258716248424167, 13106499742918505477, 3329856561242822877, 1917784667982732817, 2752475667419479414]"
  by (simp add: K512_def H512_def rounds_ab17_1 rounds_ab17_2 rounds_ab17_3 rounds_ab17_4 rounds_ab17_5 rounds_ab17_6 rounds_ab17_7 rounds_ab17_8 rounds_ab17_9 rounds_ab17_10)

lemma compress_ab17:
  "compress H512 [7017225283837100032, 0, 0, 0, 0, 0, 0, 0, 0, 0, 0, 0, 0, 0, 0, 32] =
     [7033843019176082009, 6362436101738090072, 2848569895075459077, 18133267886719333848, 500452144286955222, 14500305963235427580, 4188682637785619324, 9372992627239018223]"
  by (simp add: compress_def schedule_ab17 fold_rounds_ab17) (simp add: H512_def)

lemma hex64_ab17:
  "hex64 7033843019176082009 = ''619d3af583d9fa59''"
  "hex64 6362436101738090072 = ''584be9ecc6384e58''"
  "hex64 2848569895075459077 = ''2788273a29d83005''"
  "hex64 18133267886719333848 = ''fba64f119ce775d8''"
  "hex64 500452144286955222 = ''06f1f692df4e76d6''"
  "hex64 14500305963235427580 = ''c93b6f72992044fc''"
  "hex64 4188682637785619324 = ''3a2130aa9e0edb7c''"
  "hex64 9372992627239018223 = ''82138f225cefdeef''"
  by (simp_all add: hex64_def hexdigit_def upt_rec_numeral upt_conv_Cons)

lemma sha512_ab17:
  "sha512 ''ab17'' =
     ''619d3af583d9fa59584be9ecc6384e582788273a29d83005fba64f119ce775d806f1f692df4e76d6c93b6f72992044fc3a2130aa9e0edb7c82138f225cefdeef''"
  by (simp add: sha512_def utf8_ab17 block_ab17 compress_ab17 hex64_ab17)

lemma numberToString_17: "numberToString 17 = ''17''"
proof -
  have "decimal 17 = ''17''"
    by (simp add: decimal.simps digit_char_simps)
  then show ?thesis
    by (simp add: numberToString_safe)
qed

lemma hexToBytes_first:
  assumes "2 \<le> length hex"
  shows "\<exists>bs. hexToBytes hex = toUint8 (parseInt16 (take 2 hex)) # bs"
proof -
  from assms have "[0..<length hex div 2] = 0 # [1..<length hex div 2]"
    by (simp add: upt_conv_Cons)
  then show ?thesis
    by (simp add: hexToBytes_eq_map substr_def)
qed

lemma byteGenerator_ab17: "\<exists>bs. byteGenerator ''a'' ''b'' 17 = 97 # bs"
proof -
  have "take 2 (take 64 (sha512 ''ab17'')) = ''61''"
    by (simp add: sha512_ab17)
  moreover have "toUint8 (parseInt16 ''61'') = 97"
    by (simp add: ev)
  moreover have "2 \<le> length (take 64 (sha512 ''ab17''))"
    by (simp add: length_sha512)
  ultimately show ?thesis
    using hexToBytes_first [of "take 64 (sha512 ''ab17'')"]
    by (simp add: byteGenerator_def combine_def numberToString_17)
qed

lemma parseFloat_fraction_value:
  assumes "list_all is_digit ds"
  shows "parseFloat (''0.'' @ ds) = rnd (of_nat (decnum ds) / 10 ^ length ds)"
proof -
  have "parseFloat (''0.'' @ ds) = rnd (of_nat (decnum (''0'' @ ds)) / 10 ^ length ds)"
    using parseFloat_digits_point [of "''0''" ds] assms by simp
  moreover have "decnum (''0'' @ ds) = decnum ds"
    by (simp add: decnum_append) (simp add: decnum_def)
  ultimately show ?thesis
    by simp
qed

lemma is_double_61_64: "is_double (61 / 64)"
proof (rule is_doubleI)
  have "ilog2 (61 / 64) = - 1"
    by (rule ilog2_unique) simp_all
  then have u: "ulp (61 / 64) = 2 powi (- 53)"
    by (simp add: ulp_def expo_def)
  show "(61 / 64 :: rat) / ulp (61 / 64) = of_int (61 * 2 ^ 47)"
    unfolding u by (simp add: power_int_minus)
qed simp_all

text \<open>
  A first byte of 97 makes the joined digits start with \<open>97\<close>, a fraction of at
  least 0.97: one digit after the point rounds it to \<open>1.0\<close>.
\<close>

lemma generateFloats_rounds_to_one:
  assumes "byteGenerator c s n = 97 # bs"
  shows "generateFloats c s n 1 = Inr (Finite 1)"
proof -
  define ds where "ds = join_bytes (byteGenerator c s n)"
  define r where "r = join_bytes bs"
  define x :: rat where "x = of_nat (decnum ds) / 10 ^ length ds"
  have "decimal 97 = ''97''"
    by (simp add: decimal.simps digit_char_simps)
  then have ds: "ds = ''97'' @ r"
    using numberToString_byte [of 97] by (simp add: ds_def r_def assms join_bytes_def)
  have digits: "list_all is_digit ds"
    unfolding ds_def by (rule join_bytes_digits)
  have "decnum ''97'' = 97"
    by (simp add: decnum_def)
  then have "decnum ds = 97 * 10 ^ length r + decnum r"
    unfolding ds using decnum_append [of "''97''" r] by simp
  then have "(97 :: rat) * 10 ^ length r \<le> of_nat (decnum ds)"
    by (simp add: of_nat_add)
  moreover have "length ds = length r + 2"
    by (simp add: ds)
  ultimately have low: "61 / 64 \<le> x"
    by (simp add: x_def field_simps)
  have "(of_nat (decnum ds) :: rat) \<le> 10 ^ length ds"
    using decnum_less [OF digits] by (metis of_nat_le_iff of_nat_numeral of_nat_power less_imp_le)
  then have up: "x \<le> 1"
    by (simp add: x_def divide_le_eq_1)
  obtain y where y: "rnd x = Finite y" "61 / 64 \<le> y" "y \<le> 1"
    using rnd_between [OF is_double_61_64 _ low up] is_double_int [of 1] by auto
  have pf: "parseFloat (''0.'' @ join_bytes (byteGenerator c s n)) = Finite y"
    using parseFloat_fraction_value [OF digits] y(1) by (simp add: ds_def x_def)
  have "0 \<le> y"
    using y(2) by simp
  then obtain fixed where fixed: "toFixed (Finite y) 1 = Inr fixed"
      "parseFloat fixed = rnd (of_nat (nat \<lfloor>y * 10 ^ nat 1 + 1 / 2\<rfloor>) / 10 ^ nat 1)"
    using toFixed_parseFloat [of y 1] by auto
  have "\<lfloor>y * 10 + 1 / 2\<rfloor> = 10"
    using y(2,3) by (intro floor_unique) simp_all
  then have "parseFloat fixed = rnd 1"
    using fixed(2) by simp
  then have "parseFloat fixed = Finite 1"
    using rnd_int [of 1] by simp
  with pf fixed(1) show ?thesis
    by (simp add: generateFloats_def Let_def)
qed

section \<open>Properties of \<open>generateFloats\<close> and \<open>generateBool\<close>\<close>

text \<open>
  C8 (as the code has it).  For every client seed, server seed and nonce and every
  precision from 0 to 100, \<open>generateFloats\<close> returns a value in the closed interval
  \<open>[0, 1]\<close>, which for precision 0 is exactly 0 or exactly 1; for any other precision
  \<open>toFixed\<close> throws a RangeError and no value is returned.  The interval is closed
  because rounding to the requested digits can reach 1: it does at precision 1 for
  client seed \<open>a\<close>, server seed \<open>b\<close> and nonce 17.
\<close>

theorem generateFloats_unit_interval:
  "(0 \<le> precision \<and> precision \<le> 100 \<longrightarrow>
      (\<exists>v. generateFloats clientSeed serverSeed nonce precision = Inr (Finite v) \<and>
           0 \<le> v \<and> v \<le> 1 \<and> (precision = 0 \<longrightarrow> v = 0 \<or> v = 1))) \<and>
   (precision < 0 \<or> 100 < precision \<longrightarrow>
      generateFloats clientSeed serverSeed nonce precision = Inl RangeError)"
  using generateFloats_unit [of precision clientSeed serverSeed nonce]
    generateFloats_range_error [of precision clientSeed serverSeed nonce]
  by blast

theorem generateFloats_unit_interval_witness:
  "(0::int) \<le> 2 \<and> (2::int) \<le> 100 \<and> (100::int) < 101 \<and>
   (\<exists>v. generateFloats ''a'' ''b'' 0 2 = Inr (Finite v) \<and> 0 \<le> v \<and> v \<le> 1) \<and>
   (\<exists>v. generateFloats ''a'' ''b'' 0 0 = Inr (Finite v) \<and> (v = 0 \<or> v = 1)) \<and>
   generateFloats ''a'' ''b'' 0 101 = Inl RangeError"
  using generateFloats_unit_interval [of 2 "''a''" "''b''" 0]
    generateFloats_unit_interval [of 0 "''a''" "''b''" 0]
    generateFloats_unit_interval [of 101 "''a''" "''b''" 0]
  by auto

theorem generateFloats_half_open_counterexample:
  "generateFloats ''a'' ''b'' 17 1 = Inr (Finite 1) \<and>
   generateFloats ''a'' ''b'' 0 101 = Inl RangeError"
proof
  show "generateFloats ''a'' ''b'' 17 1 = Inr (Finite 1)"
    using byteGenerator_ab17 generateFloats_rounds_to_one by blast
  show "generateFloats ''a'' ''b'' 0 101 = Inl RangeError"
    by (simp add: generateFloats_range_error)
qed

text \<open>
  C3.  For every client seed, server seed and nonce, \<open>generateFloats\<close> with
  precision 10 returns a value \<open>v\<close>, and \<open>generateBool\<close> returns \<open>true\<close> if
  \<open>v \<le> 0.5\<close> and \<open>false\<close> otherwise.
\<close>

theorem generateBool_iff_float_le_half:
  "\<exists>v. generateFloats clientSeed serverSeed nonce 10 = Inr (Finite v) \<and>
       generateBool clientSeed serverSeed nonce = Inr (v \<le> 1 / 2)"
proof -
  obtain v where "generateFloats clientSeed serverSeed nonce 10 = Inr (Finite v)"
    using generateFloats_unit [of 10 clientSeed serverSeed nonce] by auto
  then show ?thesis
    by (auto simp: generateBool_def)
qed

section \<open>Properties of \<open>selectRandomObject\<close>\<close>

lemma cumulative_step:
  "i < length ps \<Longrightarrow>
   js_add (foldl js_add (Finite 0) (take i ps)) (ps ! i) = cumulative ps i"
  by (simp add: cumulative_def take_Suc_conv_app_nth)

lemma select_loop_find:
  assumes "index = foldl js_add (Finite 0) (take i nps)"
  shows "select_loop draw nps objects i index =
     map_option (nth objects)
       (find (\<lambda>j. js_less draw (cumulative nps j)) [i..<length nps])"
  using assms
proof (induction draw nps objects i index rule: select_loop.induct)
  case (1 draw nps objects i index)
  show ?case
  proof (cases "i < length nps")
    case False
    then show ?thesis
      by (subst select_loop.simps) simp
  next
    case True
    then have upt: "[i..<length nps] = i # [i + 1..<length nps]"
      by (simp add: upt_conv_Cons)
    have next_index: "js_add index (nps ! i) = cumulative nps i"
      using True "1.prems" by (simp add: cumulative_step)
    show ?thesis
    proof (cases "js_less draw (cumulative nps i)")
      case hit: True
      with True next_index show ?thesis
        by (subst select_loop.simps) (simp add: upt Let_def)
    next
      case miss: False
      have "cumulative nps i = foldl js_add (Finite 0) (take (i + 1) nps)"
        by (simp add: cumulative_def)
      with "1.IH" [OF True refl] miss next_index
      have "select_loop draw nps objects (i + 1) (cumulative nps i) =
          map_option (nth objects)
            (find (\<lambda>j. js_less draw (cumulative nps j)) [i + 1..<length nps])"
        by simp
      with True miss next_index show ?thesis
        by (subst select_loop.simps) (simp add: upt Let_def)
    qed
  qed
qed

lemma selectRandomObject_walk:
  "\<exists>draw. generateFloats c s n 10 = Inr draw \<and>
     selectRandomObject c s n objects =
       Inr (map_option (nth objects)
         (first_exceeding draw
            (map (\<lambda>obj. js_div (probability obj)
                    (foldl (\<lambda>total obj. js_add total (probability obj)) (Finite 0) objects))
               objects)))"
proof -
  obtain v where "generateFloats c s n 10 = Inr (Finite v)"
    using generateFloats_unit [of 10 c s n] by auto
  then show ?thesis
    by (simp add: selectRandomObject_def Let_def first_exceeding_def select_loop_find)
qed

text \<open>
  C7.  For every options sequence, \<open>selectRandomObject\<close> draws one float at precision
  10 from the same seeds and nonce, divides each weight by the total (the weights added
  up in input order), and returns the option at the first position, in input order,
  whose cumulative normalized weight strictly exceeds the draw; when there is no such
  position it returns \<open>null\<close> without throwing.
\<close>

theorem selectRandomObject_first_exceeding:
  "\<exists>draw. generateFloats clientSeed serverSeed nonce 10 = Inr draw \<and>
     selectRandomObject clientSeed serverSeed nonce objects =
       Inr (map_option (nth objects)
         (first_exceeding draw
            (map (\<lambda>obj. js_div (probability obj)
                    (foldl (\<lambda>total obj. js_add total (probability obj)) (Finite 0) objects))
               objects)))"
  by (rule selectRandomObject_walk)

lemma foldl_zero_total:
  "\<forall>obj \<in> set objects. probability obj = Finite 0 \<Longrightarrow>
   foldl (\<lambda>total obj. js_add total (probability obj)) (Finite 0) objects = Finite 0"
  by (induction objects) (simp_all add: rnd_def)

lemma foldl_js_add_NaN [simp]: "foldl js_add NaN ps = NaN"
  by (induction ps) simp_all

lemma cumulative_NaN:
  assumes "\<forall>p \<in> set ps. p = NaN" "i < length ps"
  shows "cumulative ps i = NaN"
proof -
  from assms obtain qs where "take (Suc i) ps = NaN # qs"
    by (cases ps) auto
  then show ?thesis
    by (simp add: cumulative_def)
qed

lemma first_exceeding_NaN:
  assumes "\<forall>p \<in> set ps. p = NaN"
  shows "first_exceeding draw ps = None"
  using assms by (auto simp: first_exceeding_def find_None_iff cumulative_NaN)

lemma selectRandomObject_zero_weights:
  assumes "\<forall>obj \<in> set objects. probability obj = Finite 0"
  shows "selectRandomObject c s n objects = Inr None"
proof -
  let ?total = "foldl (\<lambda>total obj. js_add total (probability obj)) (Finite 0) objects"
  have "?total = Finite 0"
    using assms by (rule foldl_zero_total)
  then have "\<forall>p \<in> set (map (\<lambda>obj. js_div (probability obj) ?total) objects). p = NaN"
    using assms by simp
  from first_exceeding_NaN [OF this] selectRandomObject_walk [of c s n objects]
  show ?thesis
    by auto
qed

text \<open>
  C6 (as the code has it).  \<open>selectRandomObject\<close> validates nothing and never fails:
  it returns a result for every options sequence, whatever the signs of the weights;
  for the empty sequence the result is \<open>null\<close>, and so it is when every weight is 0
  (each quotient \<open>0 / 0\<close> is NaN, which no draw is below).
\<close>

theorem selectRandomObject_no_validation:
  "(\<exists>result. selectRandomObject clientSeed serverSeed nonce objects = Inr result) \<and>
   selectRandomObject clientSeed serverSeed nonce [] = Inr None \<and>
   ((\<forall>obj \<in> set objects. probability obj = Finite 0) \<longrightarrow>
      selectRandomObject clientSeed serverSeed nonce objects = Inr None)"
  using selectRandomObject_walk [of clientSeed serverSeed nonce objects]
    selectRandomObject_zero_weights [of "[]" clientSeed serverSeed nonce]
    selectRandomObject_zero_weights [of objects clientSeed serverSeed nonce]
  by auto

theorem selectRandomObject_no_validation_witness:
  "selectRandomObject ''a'' ''b'' 0 [] = Inr None \<and>
   selectRandomObject ''a'' ''b'' 0
     [\<lparr>ident = ''x'', probability = Finite 0\<rparr>, \<lparr>ident = ''y'', probability = Finite 0\<rparr>] = Inr None"
  using selectRandomObject_no_validation
    [of "''a''" "''b''" 0 "[\<lparr>ident = ''x'', probability = Finite 0\<rparr>, \<lparr>ident = ''y'', probability = Finite 0\<rparr>]"]
  by simp

theorem selectRandomObject_invalid_options_counterexample:
  "selectRandomObject ''a'' ''b'' 0 [] = Inr None \<and>
   selectRandomObject ''a'' ''b'' 0 [\<lparr>ident = ''x'', probability = Finite 0\<rparr>] = Inr None \<and>
   selectRandomObject ''a'' ''b'' 0
     [\<lparr>ident = ''x'', probability = Finite 1\<rparr>, \<lparr>ident = ''y'', probability = Finite (- 1)\<rparr>]
     = Inr (Some \<lparr>ident = ''x'', probability = Finite 1\<rparr>)"
proof -
  obtain v where v: "generateFloats ''a'' ''b'' 0 10 = Inr (Finite v)"
    using generateFloats_unit [of 10 "''a''" "''b''" 0] by auto
  have r1: "rnd 1 = Finite 1" and r0: "rnd 0 = Finite 0"
    using rnd_int [of 1] rnd_int [of 0] by simp_all
  have "selectRandomObject ''a'' ''b'' 0
     [\<lparr>ident = ''x'', probability = Finite 1\<rparr>, \<lparr>ident = ''y'', probability = Finite (- 1)\<rparr>]
     = Inr (Some \<lparr>ident = ''x'', probability = Finite 1\<rparr>)"
    by (simp add: selectRandomObject_def v r1 r0 select_loop.simps)
  then show ?thesis
    by (simp add: selectRandomObject_zero_weights)
qed

section \<open>Determinism\<close>



text \<open>
  \<open>generateServerSeed\<close> is the contrast: its result is read off the entropy, which it
  uses up.
\<close>

lemma generateServerSeed_reads_entropy:
  "fst (generateServerSeed \<lparr>entropy = sconst 0\<rparr>) \<noteq> fst (generateServerSeed \<lparr>entropy = sconst 255\<rparr>)"
proof -
  have seed: "fst (generateServerSeed \<lparr>entropy = s\<rparr>) = toHex (stake 256 s)" for s
    by (simp add: generateServerSeed_def randomBytes_def)
  have split: "stake 256 s = shd s # stake 255 (stl s)" for s :: "byte stream"
    using stake.simps(2) [of 255 s] by simp
  have first: "hd (toHex (stake 256 s)) = hexdigit (unat (shd s) div 16)" for s
    unfolding split by (simp add: toHex_def)
  have "hd (fst (generateServerSeed \<lparr>entropy = sconst 0\<rparr>)) = hexdigit 0"
    by (simp only: seed first) simp
  moreover have "hd (fst (generateServerSeed \<lparr>entropy = sconst 255\<rparr>)) = hexdigit 15"
    by (simp only: seed first) simp
  moreover have "hexdigit 0 \<noteq> hexdigit 15"
    by (simp add: hexdigit_def)
  ultimately show ?thesis
    by metis
qed


end
